theory Spec2Isabelle
  imports Complex_Main
begin

section \<open>Common vocabulary of the two operators\<close>

text \<open>
  Both add-ons are Blender operators: an \<open>execute\<close> method that reads the host's
  context, mutates host-owned data, reports messages to the user and returns
  \<open>{'FINISHED'}\<close> or \<open>{'CANCELLED'}\<close>. A Python exception that no \<open>try\<close> of the operator
  catches leaves \<open>execute\<close>; that is the outcome \<open>Raised\<close>. In every case the host state
  reached so far is part of the result, since mutations are not rolled back.
\<close>

datatype level = INFO | WARNING | ERROR

datatype status = FINISHED | CANCELLED

text \<open>
  The exceptions of the model are instances of \<open>Exception\<close>, which is what the
  operators' \<open>except Exception\<close> clauses catch: \<open>StopIteration\<close>, raised by \<open>next\<close>, and
  the \<open>RuntimeError\<close> with which the host's calls fail. \<open>KeyboardInterrupt\<close> and the other
  exceptions outside that class are not modelled.
\<close>

datatype exn = StopIteration | RuntimeError string

datatype outcome = Returned status | Raised exn

text \<open>\<open>str(e)\<close>, as interpolated by the f-strings of the \<open>except\<close> clauses.\<close>

fun exn_str :: "exn \<Rightarrow> string" where
  "exn_str StopIteration = []"
| "exn_str (RuntimeError msg) = msg"

section \<open>Focus Similar F-Curves: the name format\<close>

text \<open>
  \<open>re.sub(r'\[.*?\]|\(.*?\)', '', s)\<close>. At a position holding an opening bracket the
  lazy \<open>.*?\<close> extends one character at a time until the closing bracket is met; the dot
  does not match a line break, so the attempt fails when a line break (or the end of the
  string) comes first. \<open>find_close cl cs\<close> is that search over the text after the opening
  bracket and returns the text after the closing one.
\<close>

fun find_close :: "char \<Rightarrow> string \<Rightarrow> string option" where
  "find_close cl [] = None"
| "find_close cl (c # cs) =
     (if c = cl then Some cs
      else if c = CHR 0x0A then None
      else find_close cl cs)"

text \<open>One match attempt of the whole pattern at the head of the string: the first
  alternative needs \<open>[\<close>, the second \<open>(\<close>.\<close>

fun re_match :: "string \<Rightarrow> string option" where
  "re_match [] = None"
| "re_match (c # cs) =
     (if c = CHR ''['' then find_close (CHR '']'') cs
      else if c = CHR ''('' then find_close (CHR '')'') cs
      else None)"

lemma find_close_shorter: "find_close cl cs = Some rest \<Longrightarrow> length rest < Suc (length cs)"
  by (induction cs) (auto split: if_splits)

lemma re_match_shorter: "re_match (c # cs) = Some rest \<Longrightarrow> length rest < Suc (length cs)"
  by (auto split: if_splits dest: find_close_shorter)

text \<open>The substitution scans from the left: a match is dropped and the scan resumes
  after it, any other character is copied.\<close>

function re_sub_strip :: "string \<Rightarrow> string" where
  "re_sub_strip [] = []"
| "re_sub_strip (c # cs) =
     (case re_match (c # cs) of
        Some rest \<Rightarrow> re_sub_strip rest
      | None \<Rightarrow> c # re_sub_strip cs)"
  by pat_completeness auto
termination
  by (relation "measure length") (auto dest: re_match_shorter simp del: re_match.simps)

text \<open>\<open>str\<close> of a Python integer: decimal digits, a minus sign for negative values.\<close>

definition digit_char :: "nat \<Rightarrow> char" where
  "digit_char d = ''0123456789'' ! d"

function str_nat :: "nat \<Rightarrow> string" where
  "str_nat n = (if n < 10 then [digit_char n] else str_nat (n div 10) @ [digit_char (n mod 10)])"
  by pat_completeness auto
termination
  by (relation "measure id") auto

declare str_nat.simps [simp del]

definition str_int :: "int \<Rightarrow> string" where
  "str_int i = (if i < 0 then CHR ''-'' # str_nat (nat (- i)) else str_nat (nat i))"

text \<open>\<open>f"{re.sub(strip_pattern, '', fcurve.data_path)}[{fcurve.array_index}]"\<close>, the
  expression of lines 41 and 57.\<close>

definition name_format :: "string \<Rightarrow> int \<Rightarrow> string" where
  "name_format path idx = re_sub_strip path @ ''['' @ str_int idx @ '']''"

text \<open>\<open>', '.join(xs)\<close>.\<close>

fun join :: "string \<Rightarrow> string list \<Rightarrow> string" where
  "join sep [] = []"
| "join sep [x] = x"
| "join sep (x # y # ys) = x @ sep @ join sep (y # ys)"

text \<open>Lines of a string, used to say where an unclosed bracket can sit.\<close>

definition first_line :: "string \<Rightarrow> string" where
  "first_line s = takeWhile (\<lambda>c. c \<noteq> CHR 0x0A) s"

definition last_line :: "string \<Rightarrow> string" where
  "last_line s = rev (takeWhile (\<lambda>c. c \<noteq> CHR 0x0A) (rev s))"

text \<open>A string in which the pattern matches nowhere.\<close>

fun settled :: "string \<Rightarrow> bool" where
  "settled [] = True"
| "settled (c # cs) = (re_match (c # cs) = None \<and> settled cs)"

section \<open>Focus Similar F-Curves: host data and the operator\<close>

text \<open>
  F-Curves are host objects that the operator reaches through references and mutates in
  place (\<open>fcurve.select = select\<close>); the store maps a reference to the object it denotes.
  \<open>hide\<close> is the visibility flag that the host's reveal and hide operators own.
\<close>

record fcurve =
  data_path :: string
  array_index :: int
  select :: bool
  hide :: bool

record region =
  region_type :: string

record area =
  area_type :: string
  regions :: "region list"

record host =
  reports :: "(level \<times> string) list"

record graph_host = host +
  fcurves :: "nat \<Rightarrow> fcurve"
  stdout :: "string list"

text \<open>What the operator reads from \<open>context\<close>.\<close>

record graph_context =
  selected_editable_fcurves :: "nat list"
  visible_fcurves :: "nat list"
  screen_areas :: "area list"

text \<open>
  The host's Graph Editor operators are not part of the add-on; they are parameters. Each
  takes its keyword argument, the area and region of the \<open>temp_override\<close> in force (if
  any) and the host state, and either raises or returns the new state.
\<close>

record graph_ops =
  graph_reveal :: "bool \<Rightarrow> (area \<times> region) option \<Rightarrow> graph_host \<Rightarrow> exn + graph_host"
  graph_hide :: "bool \<Rightarrow> (area \<times> region) option \<Rightarrow> graph_host \<Rightarrow> exn + graph_host"
  graph_view_all :: "(area \<times> region) option \<Rightarrow> graph_host \<Rightarrow> exn + graph_host"

definition report :: "level \<Rightarrow> string \<Rightarrow> 'a host_scheme \<Rightarrow> 'a host_scheme" where
  "report lv msg h = h\<lparr>reports := reports h @ [(lv, msg)]\<rparr>"

definition print :: "string \<Rightarrow> graph_host \<Rightarrow> graph_host" where
  "print msg h = h\<lparr>stdout := stdout h @ [msg]\<rparr>"

definition selectCurve :: "nat \<Rightarrow> bool \<Rightarrow> graph_host \<Rightarrow> graph_host" where
  "selectCurve f sel h = h\<lparr>fcurves := (fcurves h)(f := (fcurves h f)\<lparr>select := sel\<rparr>)\<rparr>"

definition fcurve_name_format :: "graph_host \<Rightarrow> nat \<Rightarrow> string" where
  "fcurve_name_format h f = name_format (data_path (fcurves h f)) (array_index (fcurves h f))"

definition target_fcurve_name_formats :: "graph_host \<Rightarrow> nat list \<Rightarrow> string list" where
  "target_fcurve_name_formats h selected = map (fcurve_name_format h) selected"

text \<open>The loop of lines 56 to 64, on \<open>(fcurves_to_show, fcurves_to_hide, host)\<close>.\<close>

fun scan_visible ::
  "string list \<Rightarrow> nat list \<Rightarrow> nat list \<times> nat list \<times> graph_host \<Rightarrow> nat list \<times> nat list \<times> graph_host"
where
  "scan_visible targets [] acc = acc"
| "scan_visible targets (f # fs) (to_show, to_hide, h) =
     (if fcurve_name_format h f \<in> set targets
      then scan_visible targets fs (to_show @ [f], to_hide, selectCurve f True h)
      else scan_visible targets fs (to_show, to_hide @ [f], selectCurve f False h))"

text \<open>
  The two \<open>try\<close> bodies. An operator that raises ends the body; what the earlier
  operators did stays. The result is the exception (if any) and the state reached.
\<close>

definition show_all_ops :: "graph_ops \<Rightarrow> graph_host \<Rightarrow> exn option \<times> graph_host" where
  "show_all_ops ops h =
     (case graph_reveal ops False None h of
        Inl e \<Rightarrow> (Some e, h)
      | Inr h1 \<Rightarrow>
          (case graph_view_all ops None h1 of
             Inl e \<Rightarrow> (Some e, h1)
           | Inr h2 \<Rightarrow> (None, h2)))"

definition focus_ops :: "graph_ops \<Rightarrow> area \<times> region \<Rightarrow> graph_host \<Rightarrow> exn option \<times> graph_host" where
  "focus_ops ops ov h =
     (case graph_reveal ops True (Some ov) h of
        Inl e \<Rightarrow> (Some e, h)
      | Inr h1 \<Rightarrow>
          (case graph_hide ops True (Some ov) h1 of
             Inl e \<Rightarrow> (Some e, h1)
           | Inr h2 \<Rightarrow>
               (case graph_view_all ops (Some ov) h2 of
                  Inl e \<Rightarrow> (Some e, h2)
                | Inr h3 \<Rightarrow> (None, h3))))"

text \<open>Lines 66 to 102: what follows the loop.\<close>

definition after_scan ::
  "graph_ops \<Rightarrow> graph_context \<Rightarrow> nat list \<Rightarrow> graph_host \<Rightarrow> outcome \<times> graph_host" where
  "after_scan ops ctx fcurves_to_show h =
     (if fcurves_to_show = [] then
        (Returned CANCELLED, report INFO ''No matching F-Curves found across all actions.'' h)
      else
        (case find (\<lambda>a. area_type a = ''GRAPH_EDITOR'') (screen_areas ctx) of
           None \<Rightarrow> (Returned CANCELLED, report WARNING ''No Graph Editor area found'' h)
         | Some graph_editor_area \<Rightarrow>
             (case find (\<lambda>r. region_type r = ''WINDOW'') (regions graph_editor_area) of
                None \<Rightarrow> (Raised StopIteration, h)
              | Some graph_editor_region \<Rightarrow>
                  (case focus_ops ops (graph_editor_area, graph_editor_region) h of
                     (Some e, h') \<Rightarrow>
                       (Returned CANCELLED,
                        report ERROR (''Failed to call graph operators: '' @ exn_str e) h')
                   | (None, h') \<Rightarrow>
                       (Returned FINISHED,
                        report INFO (''Focused on '' @ str_int (int (length fcurves_to_show))
                                     @ '' F-Curves and hid others.'') h')))))"

text \<open>Lines 37 to 45: the target name formats of the selection, reported and printed.\<close>

definition loop_start :: "graph_context \<Rightarrow> graph_host \<Rightarrow> string list \<times> graph_host" where
  "loop_start ctx h =
     (let target_formats = target_fcurve_name_formats h (selected_editable_fcurves ctx);
          msg = ''Target F-Curve name formats: '' @ join '', '' target_formats
      in (target_formats, print msg (report INFO msg h)))"

text \<open>\<open>GRAPH_OT_focus_and_hide_fcurves.execute\<close>.\<close>

definition GRAPH_OT_execute :: "graph_ops \<Rightarrow> graph_context \<Rightarrow> graph_host \<Rightarrow> outcome \<times> graph_host" where
  "GRAPH_OT_execute ops ctx h =
     (if selected_editable_fcurves ctx = [] then
        (case show_all_ops ops (report INFO ''No FCurve selected in the Graph Editor.'' h) of
           (Some e, h') \<Rightarrow>
             (Returned CANCELLED, report ERROR (''Failed to call graph operators: '' @ exn_str e) h')
         | (None, h') \<Rightarrow> (Returned CANCELLED, h'))
      else
        (case loop_start ctx h of
           (target_formats, h1) \<Rightarrow>
             if visible_fcurves ctx = [] then
               (Returned CANCELLED, report WARNING ''No F-Curves found in any action.'' h1)
             else
               (case scan_visible target_formats (visible_fcurves ctx) ([], [], h1) of
                  (fcurves_to_show, fcurves_to_hide, h2) \<Rightarrow>
                    after_scan ops ctx fcurves_to_show h2)))"

text \<open>The values of \<open>fcurves_to_show\<close>, \<open>fcurves_to_hide\<close> and the host state when the
  loop has ended.\<close>

definition loop_end :: "graph_context \<Rightarrow> graph_host \<Rightarrow> nat list \<times> nat list \<times> graph_host" where
  "loop_end ctx h =
     (case loop_start ctx h of
        (target_formats, h1) \<Rightarrow> scan_visible target_formats (visible_fcurves ctx) ([], [], h1))"

section \<open>Use the Preview World for Rendering: host data\<close>

text \<open>
  Floats are only copied or written as literals that binary floating point represents
  exactly, never computed with, so \<open>real\<close> stands for them.
\<close>

record studio_light_entry =
  light_name :: string
  light_path :: string

record shading =
  studio_light :: string
  studiolight_background_blur :: real
  studiolight_rotate_z :: real

record image =
  image_name :: string
  filepath :: string

text \<open>A socket is addressed by name (\<open>inputs['Scale']\<close>) or by position (\<open>inputs[5]\<close>).\<close>

datatype socket = ByName string | ByIndex nat

text \<open>
  A node records what the operator assigned to it; \<open>None\<close> (or an absent key of
  \<open>default_value\<close>) is whatever the host put there at creation. A key of
  \<open>default_value\<close> is an input socket and, for a vector socket, the component written.
\<close>

record node =
  bl_idname :: string
  location :: "(int \<times> int) option"
  node_label :: "string option"
  data_type :: "string option"
  operation :: "string option"
  node_image :: "image option"
  default_value :: "socket \<times> nat option \<rightharpoonup> real"

text \<open>A link goes from an output socket of a node to an input socket of a node; nodes are
  referred to by their position in the tree's node collection.\<close>

type_synonym link = "(nat \<times> socket) \<times> (nat \<times> socket)"

record world =
  world_name :: string
  use_nodes :: bool
  nodes :: "node list"
  links :: "link list"

text \<open>
  World data blocks are host objects reached through references: \<open>worlds\<close> is the
  store that maps a reference to the world it denotes, \<open>world_count\<close> is the number of
  worlds created so far and the reference of the next one, and \<open>scene_world\<close> is the
  reference held by \<open>scene.world\<close>. The order in which \<open>bpy.data.worlds\<close> enumerates the
  worlds is not part of the state: the operator never enumerates them.
\<close>

record world_host = host +
  worlds :: "nat \<rightharpoonup> world"
  world_count :: nat
  scene_world :: "nat option"
  images :: "image list"

text \<open>
  What the host supplies and decides: the studio lights of the preferences; which paths
  exist on disk; \<open>bpy.data.images.load(path, check_existing=True)\<close>; for
  \<open>bpy.data.worlds.new(name)\<close>, given the worlds that exist, the exception it raises or the
  name it gives to the new world (the host makes names unique, so this need not be the
  name asked for); for \<open>nodes.new(type=ty)\<close>, the exception it raises, if any; and the node
  tree that switching \<open>use_nodes\<close> on creates.
\<close>

record world_api =
  studio_lights :: "studio_light_entry list"
  path_exists :: "string \<Rightarrow> bool"
  images_load :: "string \<Rightarrow> image list \<Rightarrow> exn + image \<times> image list"
  worlds_new_name :: "string \<Rightarrow> (nat \<rightharpoonup> world) \<Rightarrow> exn + string"
  nodes_new_error :: "string \<Rightarrow> exn option"
  default_nodes :: "node list"
  default_links :: "link list"

section \<open>Use the Preview World for Rendering: the operator\<close>

fun get_studio_light_path :: "studio_light_entry list \<Rightarrow> string \<Rightarrow> string option" where
  "get_studio_light_path [] name = None"
| "get_studio_light_path (light # lights) name =
     (if light_name light = name then Some (light_path light)
      else get_studio_light_path lights name)"

text \<open>\<open>os.path.basename\<close>, with \<open>/\<close> as the separator.\<close>

definition basename :: "string \<Rightarrow> string" where
  "basename p = rev (takeWhile (\<lambda>c. c \<noteq> CHR ''/'') (rev p))"

text \<open>\<open>bpy.data.worlds.new(name)\<close>: the host raises, or creates a data block under the
  name it chooses and returns a new reference to it.\<close>

definition worlds_new :: "world_api \<Rightarrow> string \<Rightarrow> world_host \<Rightarrow> exn + nat \<times> world_host" where
  "worlds_new api name h =
     (case worlds_new_name api name (worlds h) of
        Inl e \<Rightarrow> Inl e
      | Inr given \<Rightarrow>
          Inr (world_count h,
               h\<lparr>worlds := (worlds h)(world_count h \<mapsto>
                      \<lparr>world_name = given, use_nodes = False, nodes = [], links = []\<rparr>),
                 world_count := Suc (world_count h)\<rparr>))"

text \<open>In-place mutation of a world, and of a node of a world, through their references.
  The operator only uses references it has just obtained; a reference that denotes
  nothing, which cannot occur there, leaves the state as it is.\<close>

definition update_world :: "nat \<Rightarrow> (world \<Rightarrow> world) \<Rightarrow> world_host \<Rightarrow> world_host" where
  "update_world wid f h =
     (case worlds h wid of
        None \<Rightarrow> h
      | Some w \<Rightarrow> h\<lparr>worlds := (worlds h)(wid \<mapsto> f w)\<rparr>)"

definition node_count :: "nat \<Rightarrow> world_host \<Rightarrow> nat" where
  "node_count wid h = (case worlds h wid of None \<Rightarrow> 0 | Some w \<Rightarrow> length (nodes w))"

definition set_node :: "nat \<Rightarrow> nat \<Rightarrow> (node \<Rightarrow> node) \<Rightarrow> world_host \<Rightarrow> world_host" where
  "set_node wid nid f h =
     update_world wid (\<lambda>w. w\<lparr>nodes := (nodes w)[nid := f (nodes w ! nid)]\<rparr>) h"

definition set_use_nodes :: "world_api \<Rightarrow> nat \<Rightarrow> world_host \<Rightarrow> world_host" where
  "set_use_nodes api wid h =
     update_world wid (\<lambda>w. w\<lparr>use_nodes := True, nodes := default_nodes api, links := default_links api\<rparr>) h"

definition nodes_clear :: "nat \<Rightarrow> world_host \<Rightarrow> world_host" where
  "nodes_clear wid h = update_world wid (\<lambda>w. w\<lparr>nodes := [], links := []\<rparr>) h"

definition new_node :: "string \<Rightarrow> node" where
  "new_node ty =
     \<lparr>bl_idname = ty, location = None, node_label = None, data_type = None,
      operation = None, node_image = None, default_value = Map.empty\<rparr>"

text \<open>\<open>nodes.new(type=ty)\<close>: the host raises, or the new node is added at the end of the
  tree's nodes and a reference to it is returned.\<close>

definition nodes_new :: "world_api \<Rightarrow> nat \<Rightarrow> string \<Rightarrow> world_host \<Rightarrow> (exn + nat) \<times> world_host" where
  "nodes_new api wid ty h =
     (case nodes_new_error api ty of
        Some e \<Rightarrow> (Inl e, h)
      | None \<Rightarrow>
          (Inr (node_count wid h),
           update_world wid (\<lambda>w. w\<lparr>nodes := nodes w @ [new_node ty]\<rparr>) h))"

text \<open>\<open>links.new(src, dst)\<close> adds the link at the end of the tree's links. Link creation
  and the assignments to a node's attributes and sockets (\<open>set_node\<close>) are modelled without
  an exception of their own; the exceptions of the model are those of the calls that
  \<open>world_api\<close> and \<open>graph_ops\<close> describe, and that of \<open>next\<close>.\<close>

definition links_new :: "nat \<Rightarrow> nat \<times> socket \<Rightarrow> nat \<times> socket \<Rightarrow> world_host \<Rightarrow> world_host" where
  "links_new wid src dst h = update_world wid (\<lambda>w. w\<lparr>links := links w @ [(src, dst)]\<rparr>) h"

text \<open>A \<open>nodes.new\<close> outside any \<open>try\<close>: its exception leaves \<open>execute\<close>.\<close>

definition with_new_node ::
  "world_api \<Rightarrow> nat \<Rightarrow> string \<Rightarrow> world_host \<Rightarrow> (nat \<Rightarrow> world_host \<Rightarrow> outcome \<times> world_host)
   \<Rightarrow> outcome \<times> world_host" where
  "with_new_node api wid ty h k =
     (case nodes_new api wid ty h of
        (Inl e, h') \<Rightarrow> (Raised e, h')
      | (Inr n, h') \<Rightarrow> k n h')"

text \<open>The body of the \<open>try\<close> of lines 67 to 79, up to the assignment to \<open>env_node.image\<close>.\<close>

definition load_image :: "world_api \<Rightarrow> string \<Rightarrow> image list \<Rightarrow> exn + image \<times> image list" where
  "load_image api studio_light_path imgs =
     (case find (\<lambda>i. image_name i = basename studio_light_path) imgs of
        Some img \<Rightarrow>
          (if filepath img \<noteq> studio_light_path then images_load api studio_light_path imgs
           else Inr (img, imgs))
      | None \<Rightarrow> images_load api studio_light_path imgs)"

text \<open>Lines 84 to 157: the rest of the graph, the two values taken from the viewport's
  shading, the final report.\<close>

definition build_graph ::
  "world_api \<Rightarrow> shading \<Rightarrow> nat \<Rightarrow> nat \<Rightarrow> world_host \<Rightarrow> outcome \<times> world_host" where
  "build_graph api sh wid env_node h0 =
     with_new_node api wid ''ShaderNodeBackground'' h0 (\<lambda>bg_node h.
     let h = set_node wid bg_node (\<lambda>n. n\<lparr>location := Some (0, 0)\<rparr>) h;
         h = links_new wid (env_node, ByName ''Color'') (bg_node, ByName ''Color'') h
     in with_new_node api wid ''ShaderNodeOutputWorld'' h (\<lambda>output_node h.
     let h = set_node wid output_node (\<lambda>n. n\<lparr>location := Some (200, 0)\<rparr>) h;
         h = links_new wid (bg_node, ByName ''Background'') (output_node, ByName ''Surface'') h
     in with_new_node api wid ''ShaderNodeTexCoord'' h (\<lambda>tex_coord h.
     let h = set_node wid tex_coord (\<lambda>n. n\<lparr>location := Some (- 1200, 0)\<rparr>) h
     in with_new_node api wid ''ShaderNodeMapping'' h (\<lambda>mapping h.
     let h = set_node wid mapping (\<lambda>n. n\<lparr>location := Some (- 900, 0)\<rparr>) h;
         h = links_new wid (tex_coord, ByName ''Generated'') (mapping, ByName ''Vector'') h
     in with_new_node api wid ''ShaderNodeMix'' h (\<lambda>blur_node h.
     let h = set_node wid blur_node (\<lambda>n. n\<lparr>data_type := Some ''VECTOR''\<rparr>) h;
         h = set_node wid blur_node (\<lambda>n. n\<lparr>node_label := Some ''Blur''\<rparr>) h;
         h = set_node wid blur_node (\<lambda>n. n\<lparr>location := Some (- 600, 0)\<rparr>) h;
         h = set_node wid blur_node (\<lambda>n. n\<lparr>default_value :=
               (default_value n)((ByIndex 0, None) \<mapsto> studiolight_background_blur sh)\<rparr>) h
     in with_new_node api wid ''ShaderNodeTexNoise'' h (\<lambda>noise_node h.
     let h = set_node wid noise_node (\<lambda>n. n\<lparr>default_value :=
               (default_value n)((ByName ''Scale'', None) \<mapsto> 30000)\<rparr>) h;
         h = set_node wid noise_node (\<lambda>n. n\<lparr>location := Some (- 900, 300)\<rparr>) h
     in with_new_node api wid ''ShaderNodeVectorMath'' h (\<lambda>sub_node h.
     let h = set_node wid sub_node (\<lambda>n. n\<lparr>operation := Some ''SUBTRACT''\<rparr>) h;
         h = set_node wid sub_node (\<lambda>n. n\<lparr>default_value :=
               (default_value n)((ByIndex 1, Some 0) \<mapsto> 1 / 2,
                                 (ByIndex 1, Some 1) \<mapsto> 1 / 2,
                                 (ByIndex 1, Some 2) \<mapsto> 1 / 2)\<rparr>) h;
         h = set_node wid sub_node (\<lambda>n. n\<lparr>location := Some (- 700, 300)\<rparr>) h;
         h = links_new wid (noise_node, ByName ''Color'') (sub_node, ByIndex 0) h;
         h = links_new wid (sub_node, ByName ''Vector'') (blur_node, ByIndex 5) h;
         h = links_new wid (mapping, ByName ''Vector'') (blur_node, ByIndex 4) h;
         h = links_new wid (blur_node, ByIndex 1) (env_node, ByName ''Vector'') h;
         h = set_node wid mapping (\<lambda>n. n\<lparr>default_value :=
               (default_value n)((ByName ''Rotation'', Some 2) \<mapsto> studiolight_rotate_z sh)\<rparr>) h
     in (Returned FINISHED,
         report INFO (''Copied HDRI '' @ [CHR 0x27] @ studio_light sh @ [CHR 0x27] @ '' to World'') h))))))))"

text \<open>\<open>WORLD_OT_copy_shading_hdri.execute\<close>.\<close>

definition WORLD_OT_execute :: "world_api \<Rightarrow> shading \<Rightarrow> world_host \<Rightarrow> outcome \<times> world_host" where
  "WORLD_OT_execute api sh h =
     (let studio_light_name = studio_light sh;
          not_found = (Returned CANCELLED,
            report ERROR (''Could not find path for studio light: '' @ studio_light_name) h)
      in case get_studio_light_path (studio_lights api) studio_light_name of
           None \<Rightarrow> not_found
         | Some studio_light_path \<Rightarrow>
             if studio_light_path = [] \<or> \<not> path_exists api studio_light_path then not_found
             else
               (case worlds_new api (''Preview '' @ studio_light_name) h of
                  Inl e \<Rightarrow> (Raised e, h)
                | Inr (wid, h1) \<Rightarrow>
                    (let h2 = h1\<lparr>scene_world := Some wid\<rparr>;
                         h3 = set_use_nodes api wid h2;
                         h4 = nodes_clear wid h3
                     in with_new_node api wid ''ShaderNodeTexEnvironment'' h4 (\<lambda>env_node h5.
                        let h6 = set_node wid env_node (\<lambda>n. n\<lparr>location := Some (- 300, 0)\<rparr>) h5
                        in case load_image api studio_light_path (images h6) of
                             Inl e \<Rightarrow>
                               (Returned CANCELLED,
                                report ERROR (''Failed to load image: '' @ exn_str e) h6)
                           | Inr (img, imgs) \<Rightarrow>
                               build_graph api sh wid env_node
                                 (set_node wid env_node (\<lambda>n. n\<lparr>node_image := Some img\<rparr>)
                                    (h6\<lparr>images := imgs\<rparr>))))))"

section \<open>Auxiliary notions and concrete inputs\<close>

text \<open>
  While the preview-world operator runs, the host state is the initial one with one more
  world, stored under the new reference and made the scene's world, and with the image
  collection that loading left.
\<close>

definition staged :: "world_host \<Rightarrow> image list \<Rightarrow> world \<Rightarrow> world_host" where
  "staged h imgs w =
     h\<lparr>worlds := (worlds h)(world_count h \<mapsto> w), world_count := Suc (world_count h),
       scene_world := Some (world_count h), images := imgs\<rparr>"

text \<open>The test of line 45: the studio light has no path, an empty path, or a path that is
  not on disk.\<close>

definition studio_light_missing :: "world_api \<Rightarrow> shading \<Rightarrow> bool" where
  "studio_light_missing api sh \<longleftrightarrow>
     (case get_studio_light_path (studio_lights api) (studio_light sh) of
        None \<Rightarrow> True
      | Some p \<Rightarrow> p = [] \<or> \<not> path_exists api p)"

text \<open>The node types that lines 84 to 157 ask the host for, in that order; and the host
  creating all of them without raising.\<close>

definition graph_node_types :: "string list" where
  "graph_node_types =
     [''ShaderNodeBackground'', ''ShaderNodeOutputWorld'', ''ShaderNodeTexCoord'',
      ''ShaderNodeMapping'', ''ShaderNodeMix'', ''ShaderNodeTexNoise'', ''ShaderNodeVectorMath'']"

definition graph_types_registered :: "world_api \<Rightarrow> bool" where
  "graph_types_registered api \<longleftrightarrow>
     nodes_new_error api ''ShaderNodeBackground'' = None \<and>
     nodes_new_error api ''ShaderNodeOutputWorld'' = None \<and>
     nodes_new_error api ''ShaderNodeTexCoord'' = None \<and>
     nodes_new_error api ''ShaderNodeMapping'' = None \<and>
     nodes_new_error api ''ShaderNodeMix'' = None \<and>
     nodes_new_error api ''ShaderNodeTexNoise'' = None \<and>
     nodes_new_error api ''ShaderNodeVectorMath'' = None"

text \<open>All the node types that \<open>execute\<close> asks the host for, in the order of the calls of
  \<open>nodes.new\<close> (lines 63 to 132).\<close>

definition requested_node_types :: "string list" where
  "requested_node_types = ''ShaderNodeTexEnvironment'' # graph_node_types"

text \<open>
  Three curves: \<open>bone["A"].location\<close> with index 0, selected; \<open>bone["B"].location\<close> with
  index 0; \<open>bone["A"].location\<close> with index 1. All three are visible.
\<close>

definition curve :: "string \<Rightarrow> int \<Rightarrow> bool \<Rightarrow> fcurve" where
  "curve path idx sel = \<lparr>data_path = path, array_index = idx, select = sel, hide = False\<rparr>"

definition scenario_host :: graph_host where
  \<open>scenario_host =
     \<lparr>reports = [],
      fcurves = (\<lambda>_. curve [] 0 False)
        (0 := curve ''bone["A"].location'' 0 True,
         1 := curve ''bone["B"].location'' 0 False,
         2 := curve ''bone["A"].location'' 1 False),
      stdout = []\<rparr>\<close>

text \<open>The same selection and visible curves on a screen without any area, with a Graph
  Editor area that has no window region, and with a complete Graph Editor area; and a
  context in which no curve is visible.\<close>

definition scenario_context :: graph_context where
  "scenario_context =
     \<lparr>selected_editable_fcurves = [0], visible_fcurves = [0, 1, 2], screen_areas = []\<rparr>"

definition headless_context :: graph_context where
  "headless_context =
     scenario_context
       \<lparr>screen_areas := [\<lparr>area_type = ''GRAPH_EDITOR'', regions = [\<lparr>region_type = ''HEADER''\<rparr>]\<rparr>]\<rparr>"

definition editor_context :: graph_context where
  "editor_context =
     scenario_context
       \<lparr>screen_areas :=
          [\<lparr>area_type = ''VIEW_3D'', regions = [\<lparr>region_type = ''WINDOW''\<rparr>]\<rparr>,
           \<lparr>area_type = ''GRAPH_EDITOR'',
            regions = [\<lparr>region_type = ''HEADER''\<rparr>, \<lparr>region_type = ''WINDOW''\<rparr>]\<rparr>]\<rparr>"

definition blind_context :: graph_context where
  "blind_context = scenario_context\<lparr>visible_fcurves := []\<rparr>"

text \<open>A context with the same visible curves and nothing selected.\<close>

definition unselected_context :: graph_context where
  "unselected_context = scenario_context\<lparr>selected_editable_fcurves := []\<rparr>"

text \<open>Graph Editor operators that do nothing, and ones whose \<open>reveal\<close> raises.\<close>

definition idle_ops :: graph_ops where
  "idle_ops =
     \<lparr>graph_reveal = (\<lambda>sel ov h. Inr h),
      graph_hide = (\<lambda>unselected ov h. Inr h),
      graph_view_all = (\<lambda>ov h. Inr h)\<rparr>"

definition failing_ops :: graph_ops where
  "failing_ops = idle_ops\<lparr>graph_reveal := (\<lambda>sel ov h. Inl (RuntimeError ''poll failed''))\<rparr>"

text \<open>
  A viewport lit by the studio light \<open>forest.exr\<close>, a blend file without worlds and
  images, and five hosts: one that has the light on disk and creates every world and node
  (a world gets the name asked for, or that name followed by \<open>.001\<close> when it is taken);
  one without studio lights; one that cannot read the file; one that does not know the
  node type \<open>ShaderNodeMix\<close> and fails as Blender does for an unknown node type; one that
  refuses to create worlds.
\<close>

definition forest_shading :: shading where
  "forest_shading =
     \<lparr>studio_light = ''forest.exr'', studiolight_background_blur = 1 / 4,
      studiolight_rotate_z = 3\<rparr>"

definition empty_blend :: world_host where
  "empty_blend =
     \<lparr>reports = [], worlds = Map.empty, world_count = 0, scene_world = None, images = []\<rparr>"

definition full_api :: world_api where
  "full_api =
     \<lparr>studio_lights = [\<lparr>light_name = ''forest.exr'', light_path = ''/lights/forest.exr''\<rparr>],
      path_exists = (\<lambda>p. True),
      images_load = (\<lambda>p imgs.
        Inr (\<lparr>image_name = basename p, filepath = p\<rparr>,
             imgs @ [\<lparr>image_name = basename p, filepath = p\<rparr>])),
      worlds_new_name = (\<lambda>name ws.
        if name \<in> world_name ` ran ws then Inr (name @ ''.001'') else Inr name),
      nodes_new_error = (\<lambda>ty. None),
      default_nodes = [new_node ''ShaderNodeBackground'', new_node ''ShaderNodeOutputWorld''],
      default_links = [((0, ByName ''Background''), (1, ByName ''Surface''))]\<rparr>"

definition no_lights_api :: world_api where
  "no_lights_api = full_api\<lparr>studio_lights := []\<rparr>"

definition unreadable_api :: world_api where
  "unreadable_api = full_api\<lparr>images_load := (\<lambda>p imgs. Inl (RuntimeError ''cannot read file''))\<rparr>"

definition mixless_api :: world_api where
  "mixless_api =
     full_api\<lparr>nodes_new_error := (\<lambda>ty.
       if ty = ''ShaderNodeMix''
       then Some (RuntimeError (''Error: Node type ShaderNodeMix undefined'' @ [CHR 0x0A]))
       else None)\<rparr>"

definition worldless_api :: world_api where
  "worldless_api =
     full_api\<lparr>worlds_new_name := (\<lambda>name ws. Inl (RuntimeError ''cannot create world''))\<rparr>"

section \<open>Properties of the name format\<close>

subsection \<open>The characters of a decimal number\<close>

lemma digit_char_in: "d < 10 \<Longrightarrow> digit_char d \<in> set ''0123456789''"
  unfolding digit_char_def by (rule nth_mem) simp

lemma str_nat_chars: "set (str_nat n) \<subseteq> set ''0123456789''"
proof (induction n rule: str_nat.induct)
  case (1 n)
  show ?case
  proof (cases "n < 10")
    case True
    then show ?thesis using digit_char_in [of n] by (subst str_nat.simps) simp
  next
    case False
    have "n mod 10 < 10" by simp
    from digit_char_in [OF this] 1 [OF False] False show ?thesis
      by (subst str_nat.simps) simp
  qed
qed

lemma str_int_chars: "set (str_int i) \<subseteq> set ''-0123456789''"
proof -
  have "set (str_nat n) \<subseteq> set ''-0123456789''" for n
    using str_nat_chars [of n] by (rule subset_trans) simp
  then show ?thesis unfolding str_int_def by simp
qed

lemma str_int_plain:
  "CHR '']'' \<notin> set (str_int i)" "CHR '')'' \<notin> set (str_int i)" "CHR 0x0A \<notin> set (str_int i)"
proof -
  have a: "CHR '']'' \<notin> set ''-0123456789''" by simp
  have b: "CHR '')'' \<notin> set ''-0123456789''" by simp
  have c: "CHR 0x0A \<notin> set ''-0123456789''" by simp
  from a str_int_chars [of i] show "CHR '']'' \<notin> set (str_int i)" by blast
  from b str_int_chars [of i] show "CHR '')'' \<notin> set (str_int i)" by blast
  from c str_int_chars [of i] show "CHR 0x0A \<notin> set (str_int i)" by blast
qed

lemma find_close_None_iff:
  "cl \<noteq> CHR 0x0A \<Longrightarrow> find_close cl cs = None \<longleftrightarrow> cl \<notin> set (first_line cs)"
  by (induction cs) (simp_all add: first_line_def)

lemma find_close_Some_split:
  "find_close cl cs = Some rest \<Longrightarrow>
     \<exists>pre. cs = pre @ cl # rest \<and> CHR 0x0A \<notin> set pre \<and> cl \<notin> set pre"
proof (induction cs)
  case Nil
  then show ?case by simp
next
  case (Cons c cs)
  show ?case
  proof (cases "c = cl")
    case True
    with Cons.prems show ?thesis by (intro exI [of _ "[]"]) simp
  next
    case False
    with Cons.prems have nl: "c \<noteq> CHR 0x0A" and fc: "find_close cl cs = Some rest"
      by (simp_all split: if_splits)
    from Cons.IH [OF fc] obtain pre where "cs = pre @ cl # rest" "CHR 0x0A \<notin> set pre" "cl \<notin> set pre"
      by blast
    with False nl show ?thesis by (intro exI [of _ "c # pre"]) simp
  qed
qed

lemma find_close_append:
  "cl \<notin> set pre \<Longrightarrow> CHR 0x0A \<notin> set pre \<Longrightarrow> find_close cl (pre @ cl # rest) = Some rest"
  by (induction pre) auto

lemma first_line_split:
  "CHR 0x0A \<notin> set pre \<Longrightarrow> first_line (pre @ rest) = pre @ first_line rest"
  by (induction pre) (auto simp: first_line_def)

lemma first_line_Cons:
  "first_line (c # cs) = (if c = CHR 0x0A then [] else c # first_line cs)"
  by (simp add: first_line_def)

lemma re_match_Some_first_line:
  assumes "re_match (c # cs) = Some rest"
  shows "set (first_line rest) \<subseteq> set (first_line cs)"
    and "CHR 0x0A \<in> set rest \<longleftrightarrow> CHR 0x0A \<in> set cs"
proof -
  from assms obtain cl where fc: "find_close cl cs = Some rest" and cl: "cl \<noteq> CHR 0x0A"
    by (auto split: if_splits)
  from find_close_Some_split [OF fc] obtain pre where
    cs: "cs = pre @ cl # rest" and pre: "CHR 0x0A \<notin> set pre" by blast
  have "first_line cs = pre @ cl # first_line rest"
    unfolding cs using first_line_split [OF pre, of "cl # rest"] cl by (simp add: first_line_Cons)
  then show "set (first_line rest) \<subseteq> set (first_line cs)" by auto
  show "CHR 0x0A \<in> set rest \<longleftrightarrow> CHR 0x0A \<in> set cs"
    unfolding cs using pre cl by auto
qed

lemma re_match_None_iff:
  "re_match (c # cs) = None \<longleftrightarrow>
     (c = CHR ''['' \<longrightarrow> CHR '']'' \<notin> set (first_line cs)) \<and>
     (c = CHR ''('' \<longrightarrow> CHR '')'' \<notin> set (first_line cs))"
  by (simp add: find_close_None_iff)

subsection \<open>Stripping leaves nothing to strip\<close>

lemma strip_keeps_newline: "CHR 0x0A \<in> set (re_sub_strip s) \<longleftrightarrow> CHR 0x0A \<in> set s"
proof (induction s rule: re_sub_strip.induct)
  case 1
  show ?case by simp
next
  case (2 c cs)
  show ?case
  proof (cases "re_match (c # cs)")
    case None
    with 2(1) show ?thesis by (simp del: re_match.simps)
  next
    case (Some rest)
    then have nl: "c \<noteq> CHR 0x0A" by (auto split: if_splits)
    from Some 2(2) re_match_Some_first_line(2) [OF Some] nl show ?thesis
      by (simp del: re_match.simps)
  qed
qed

lemma strip_first_line: "set (first_line (re_sub_strip s)) \<subseteq> set (first_line s)"
proof (induction s rule: re_sub_strip.induct)
  case 1
  show ?case by simp
next
  case (2 c cs)
  show ?case
  proof (cases "re_match (c # cs)")
    case None
    with 2(1) show ?thesis by (auto simp: first_line_Cons simp del: re_match.simps)
  next
    case (Some rest)
    then have nl: "c \<noteq> CHR 0x0A" by (auto split: if_splits)
    from 2(2) [OF Some] re_match_Some_first_line(1) [OF Some]
    have "set (first_line (re_sub_strip rest)) \<subseteq> set (first_line cs)" by blast
    with Some nl show ?thesis by (auto simp: first_line_Cons simp del: re_match.simps)
  qed
qed

lemma strip_settled: "settled (re_sub_strip s)"
proof (induction s rule: re_sub_strip.induct)
  case 1
  show ?case by simp
next
  case (2 c cs)
  show ?case
  proof (cases "re_match (c # cs)")
    case None
    then have "re_match (c # re_sub_strip cs) = None"
      unfolding re_match_None_iff using strip_first_line [of cs] by blast
    with None 2(1) show ?thesis by (simp del: re_match.simps)
  next
    case (Some rest)
    with 2(2) show ?thesis by (simp del: re_match.simps)
  qed
qed

lemma settled_strip: "settled s \<Longrightarrow> re_sub_strip s = s"
  by (induction s) (simp_all del: re_match.simps)

lemma strip_idem: "re_sub_strip (re_sub_strip s) = re_sub_strip s"
  by (rule settled_strip) (rule strip_settled)

lemma last_line_Cons:
  "last_line (c # cs) =
     (if CHR 0x0A \<in> set cs then last_line cs else if c = CHR 0x0A then cs else c # cs)"
  by (auto simp: last_line_def takeWhile_append)

lemma last_line_subset: "set (last_line s) \<subseteq> set s"
  unfolding last_line_def using set_takeWhileD [of _ _ "rev s"] by auto

lemma first_line_append:
  "first_line (s @ t) = (if CHR 0x0A \<in> set s then first_line s else s @ first_line t)"
  by (auto simp: first_line_def takeWhile_append)

lemma settled_append_key:
  assumes d: "CHR '']'' \<notin> set d" "CHR '')'' \<notin> set d" "CHR 0x0A \<notin> set d"
  shows "settled s \<Longrightarrow> CHR ''['' \<notin> set (last_line s) \<Longrightarrow>
           re_sub_strip (s @ CHR ''['' # d @ [CHR '']'']) = s"
proof (induction s)
  case Nil
  have "find_close (CHR '']'') (d @ CHR '']'' # []) = Some []"
    using d by (intro find_close_append) 
  then show ?case by simp
next
  case (Cons c s)
  let ?t = "CHR ''['' # d @ [CHR '']'']"
  from Cons.prems have m: "re_match (c # s) = None" and st: "settled s" by simp_all
  have ll: "CHR ''['' \<notin> set (last_line s)"
    using Cons.prems(2) last_line_subset [of s] by (auto simp: last_line_Cons split: if_splits)
  have nl: "c = CHR ''['' \<Longrightarrow> CHR 0x0A \<in> set s"
    using Cons.prems(2) by (auto simp: last_line_Cons split: if_splits)
  have fl: "first_line ?t = ?t"
    using d by (auto simp: first_line_def)
  have "re_match (c # s @ ?t) = None"
    unfolding re_match_None_iff
  proof (intro conjI impI)
    assume c: "c = CHR ''[''"
    with m have "CHR '']'' \<notin> set (first_line s)" by (simp add: find_close_None_iff)
    with nl [OF c] show "CHR '']'' \<notin> set (first_line (s @ ?t))"
      by (simp add: first_line_append)
  next
    assume c: "c = CHR ''(''"
    with m have "CHR '')'' \<notin> set (first_line s)" by (simp add: find_close_None_iff)
    moreover have "\<not> CHR 0x0A \<in> set s \<Longrightarrow> first_line s = s"
      by (auto simp: first_line_def)
    ultimately show "CHR '')'' \<notin> set (first_line (s @ ?t))"
      using d by (auto simp: first_line_append fl)
  qed
  with Cons.IH [OF st ll] show ?case by (simp del: re_match.simps)
qed

lemma str_nat_digit: "n < 10 \<Longrightarrow> str_nat n = [digit_char n]"
  by (subst str_nat.simps) simp

lemma str_int_0: "str_int 0 = ''0''"
  by (simp add: str_int_def str_nat_digit digit_char_def)

lemma str_int_1: "str_int 1 = ''1''"
  by (simp add: str_int_def str_nat_digit digit_char_def)

lemma str_int_2: "str_int 2 = ''2''"
  by (simp add: str_int_def str_nat_digit digit_char_def)

subsection \<open>Claims about the name format\<close>

text \<open>
  C2. The data paths \<open>pose.bones["Arm"].location\<close> and \<open>pose.bones["Leg"].location\<close> with
  array index 0 have the same name format, and whatever the data path, array indices 0 and
  1 give different name formats.
\<close>

theorem name_format_bones:
  \<open>name_format ''pose.bones["Arm"].location'' 0 = name_format ''pose.bones["Leg"].location'' 0
   \<and> name_format path 0 \<noteq> name_format path 1\<close>
  by (simp add: name_format_def str_int_0 str_int_1)

text \<open>
  C3, as stated: deriving the name format of a name format, with the same index, gives it
  back. It fails when the stripped path keeps an opening square bracket that nothing
  closes: the appended \<open>[index]\<close> then closes it. Here \<open>a(b)c[d\<close> with index 0 has the
  name format \<open>ac[d[0]\<close>, whose own name format is \<open>ac[0]\<close>.
\<close>

theorem name_format_not_idempotent:
  "name_format (name_format ''a(b)c[d'' 0) 0 \<noteq> name_format ''a(b)c[d'' 0"
  by (simp add: name_format_def str_int_0)

text \<open>
  C3, amended: when the last line of the stripped path holds no opening square bracket,
  deriving the name format of the name format, with the same index, gives it back.
\<close>

theorem name_format_idempotent:
  assumes "CHR ''['' \<notin> set (last_line (re_sub_strip path))"
  shows "name_format (name_format path idx) idx = name_format path idx"
proof -
  have "re_sub_strip (re_sub_strip path @ CHR ''['' # str_int idx @ [CHR '']'']) = re_sub_strip path"
    using str_int_plain [of idx] strip_settled [of path] assms by (intro settled_append_key)
  then show ?thesis by (simp add: name_format_def)
qed

theorem name_format_idempotent_witness:
  \<open>CHR ''['' \<notin> set (last_line (re_sub_strip ''pose.bones["Arm"].location''))
   \<and> name_format (name_format ''pose.bones["Arm"].location'' 0) 0
       = name_format ''pose.bones["Arm"].location'' 0\<close>
proof -
  have h: \<open>CHR ''['' \<notin> set (last_line (re_sub_strip ''pose.bones["Arm"].location''))\<close>
    by (simp add: last_line_def)
  show ?thesis by (rule conjI [OF h name_format_idempotent [OF h]])
qed

section \<open>Properties of the focus operator\<close>

subsection \<open>The loop over the visible curves\<close>

lemma name_format_selectCurve [simp]:
  "fcurve_name_format (selectCurve g b h) f = fcurve_name_format h f"
  by (simp add: fcurve_name_format_def selectCurve_def)

lemma name_format_loop_start [simp]:
  "fcurve_name_format (snd (loop_start ctx h)) f = fcurve_name_format h f"
  by (simp add: fcurve_name_format_def loop_start_def Let_def print_def report_def)

lemma scan_visible_lists:
  "scan_visible targets vis (sh, hi, h) = (sh', hi', h') \<Longrightarrow>
     sh' = sh @ filter (\<lambda>f. fcurve_name_format h f \<in> set targets) vis \<and>
     hi' = hi @ filter (\<lambda>f. fcurve_name_format h f \<notin> set targets) vis"
proof (induction vis arbitrary: sh hi h)
  case Nil
  then show ?case by simp
next
  case (Cons f fs)
  show ?case
  proof (cases "fcurve_name_format h f \<in> set targets")
    case True
    with Cons.prems have "scan_visible targets fs (sh @ [f], hi, selectCurve f True h) = (sh', hi', h')"
      by simp
    from Cons.IH [OF this] True show ?thesis by simp
  next
    case False
    with Cons.prems have "scan_visible targets fs (sh, hi @ [f], selectCurve f False h) = (sh', hi', h')"
      by simp
    from Cons.IH [OF this] False show ?thesis by simp
  qed
qed

lemma scan_visible_store:
  "scan_visible targets vis (sh, hi, h) = (sh', hi', h') \<Longrightarrow>
     fcurves h' = (\<lambda>f. if f \<in> set vis
                        then (fcurves h f)\<lparr>select := fcurve_name_format h f \<in> set targets\<rparr>
                        else fcurves h f) \<and>
     reports h' = reports h \<and> stdout h' = stdout h"
proof (induction vis arbitrary: sh hi h)
  case Nil
  then show ?case by simp
next
  case (Cons f fs)
  let ?b = "fcurve_name_format h f \<in> set targets"
  from Cons.prems obtain sh1 hi1 where
    "scan_visible targets fs (sh1, hi1, selectCurve f ?b h) = (sh', hi', h')"
    by (cases ?b) simp_all
  from Cons.IH [OF this] show ?case
    by (auto simp: selectCurve_def fun_eq_iff fcurve_name_format_def)
qed

lemma loop_end_lists:
  "fst (loop_end ctx h) =
     filter (\<lambda>f. fcurve_name_format h f \<in> set (fst (loop_start ctx h))) (visible_fcurves ctx)"
  "fst (snd (loop_end ctx h)) =
     filter (\<lambda>f. fcurve_name_format h f \<notin> set (fst (loop_start ctx h))) (visible_fcurves ctx)"
proof -
  obtain ts h1 where ls: "loop_start ctx h = (ts, h1)" by (cases "loop_start ctx h")
  obtain sh hi h2 where sc: "scan_visible ts (visible_fcurves ctx) ([], [], h1) = (sh, hi, h2)"
    by (cases "scan_visible ts (visible_fcurves ctx) ([], [], h1)")
  have k: "fcurve_name_format h1 f = fcurve_name_format h f" for f
    using name_format_loop_start [of ctx h f] ls by simp
  from scan_visible_lists [OF sc] ls sc k
  show "fst (loop_end ctx h) =
     filter (\<lambda>f. fcurve_name_format h f \<in> set (fst (loop_start ctx h))) (visible_fcurves ctx)"
   and "fst (snd (loop_end ctx h)) =
     filter (\<lambda>f. fcurve_name_format h f \<notin> set (fst (loop_start ctx h))) (visible_fcurves ctx)"
    by (simp_all add: loop_end_def)
qed

lemma loop_start_targets:
  "fst (loop_start ctx h) = target_fcurve_name_formats h (selected_editable_fcurves ctx)"
  by (simp add: loop_start_def Let_def)

lemma scenario_formats:
  "fcurve_name_format scenario_host 0 = ''bone.location[0]''"
  "fcurve_name_format scenario_host (Suc 0) = ''bone.location[0]''"
  "fcurve_name_format scenario_host 2 = ''bone.location[1]''"
  by (simp_all add: fcurve_name_format_def scenario_host_def curve_def name_format_def
        str_int_0 str_int_1)

lemma loop_end_store:
  "fcurves (snd (snd (loop_end ctx h))) =
     (\<lambda>f. if f \<in> set (visible_fcurves ctx)
          then (fcurves h f)\<lparr>select := fcurve_name_format h f
                  \<in> set (target_fcurve_name_formats h (selected_editable_fcurves ctx))\<rparr>
          else fcurves h f)"
proof -
  obtain ts h1 where ls: "loop_start ctx h = (ts, h1)" by (cases "loop_start ctx h")
  obtain sh hi h2 where sc: "scan_visible ts (visible_fcurves ctx) ([], [], h1) = (sh, hi, h2)"
    by (cases "scan_visible ts (visible_fcurves ctx) ([], [], h1)")
  have k: "fcurve_name_format h1 f = fcurve_name_format h f" for f
    using name_format_loop_start [of ctx h f] ls by simp
  have f1: "fcurves h1 = fcurves h"
    using ls by (auto simp: loop_start_def Let_def print_def report_def)
  have ts: "ts = target_fcurve_name_formats h (selected_editable_fcurves ctx)"
    using ls loop_start_targets [of ctx h] by simp
  have "fcurves h2 =
     (\<lambda>f. if f \<in> set (visible_fcurves ctx)
          then (fcurves h1 f)\<lparr>select := fcurve_name_format h1 f \<in> set ts\<rparr>
          else fcurves h1 f)"
    using scan_visible_store [OF sc] by simp
  then have "fcurves h2 =
     (\<lambda>f. if f \<in> set (visible_fcurves ctx)
          then (fcurves h f)\<lparr>select := fcurve_name_format h f
                  \<in> set (target_fcurve_name_formats h (selected_editable_fcurves ctx))\<rparr>
          else fcurves h f)"
    unfolding k f1 ts .
  moreover have "snd (snd (loop_end ctx h)) = h2"
    using ls sc by (simp add: loop_end_def)
  ultimately show ?thesis by simp
qed

lemma execute_after_loop:
  assumes "selected_editable_fcurves ctx \<noteq> []" and "visible_fcurves ctx \<noteq> []"
  shows "GRAPH_OT_execute ops ctx h =
           after_scan ops ctx (fst (loop_end ctx h)) (snd (snd (loop_end ctx h)))"
  using assms by (simp add: GRAPH_OT_execute_def loop_end_def split: prod.splits)

subsection \<open>The scenario, evaluated\<close>

lemma scenario_targets:
  "target_fcurve_name_formats scenario_host [0] = [''bone.location[0]'']"
  by (simp add: target_fcurve_name_formats_def scenario_formats)

lemma scenario_show:
  assumes "selected_editable_fcurves ctx = [0]" and "visible_fcurves ctx = [0, 1, 2]"
  shows "fst (loop_end ctx scenario_host) = [0, 1]"
  using assms by (simp add: loop_end_lists loop_start_targets scenario_targets scenario_formats)

lemma scenario_flags:
  assumes "selected_editable_fcurves ctx = [0]" and "visible_fcurves ctx = [0, 1, 2]"
  shows "select (fcurves (snd (snd (loop_end ctx scenario_host))) (Suc 0))"
    and "\<not> select (fcurves (snd (snd (loop_end ctx scenario_host))) 2)"
  using assms by (simp_all add: loop_end_store scenario_targets scenario_formats)

lemma scenario_contexts:
  "selected_editable_fcurves scenario_context = [0]" "visible_fcurves scenario_context = [0, 1, 2]"
  "selected_editable_fcurves headless_context = [0]" "visible_fcurves headless_context = [0, 1, 2]"
  "selected_editable_fcurves editor_context = [0]" "visible_fcurves editor_context = [0, 1, 2]"
  "selected_editable_fcurves blind_context = [0]" "visible_fcurves blind_context = []"
  "selected_editable_fcurves unselected_context = []"
  by (simp_all add: scenario_context_def headless_context_def editor_context_def
        blind_context_def unselected_context_def)

lemma scenario_areas:
  "find (\<lambda>a. area_type a = ''GRAPH_EDITOR'') (screen_areas scenario_context) = None"
  "find (\<lambda>a. area_type a = ''GRAPH_EDITOR'') (screen_areas headless_context)
     = Some \<lparr>area_type = ''GRAPH_EDITOR'', regions = [\<lparr>region_type = ''HEADER''\<rparr>]\<rparr>"
  "find (\<lambda>a. area_type a = ''GRAPH_EDITOR'') (screen_areas editor_context)
     = Some \<lparr>area_type = ''GRAPH_EDITOR'',
             regions = [\<lparr>region_type = ''HEADER''\<rparr>, \<lparr>region_type = ''WINDOW''\<rparr>]\<rparr>"
  by (simp_all add: scenario_context_def headless_context_def editor_context_def)

subsection \<open>Claims about the loop\<close>

text \<open>
  C1. Whatever the visible curves and the non-empty selection, when the loop has ended
  \<open>fcurves_to_show\<close> holds the visible curves whose name format is among the name formats
  of the selected curves, \<open>fcurves_to_hide\<close> holds the other visible curves, no curve is
  in both and every visible curve is in one of them.
\<close>

theorem focus_partition:
  assumes "selected_editable_fcurves ctx \<noteq> []"
  shows "fst (loop_end ctx h) =
           filter (\<lambda>f. fcurve_name_format h f
                          \<in> set (target_fcurve_name_formats h (selected_editable_fcurves ctx)))
                  (visible_fcurves ctx)
       \<and> fst (snd (loop_end ctx h)) =
           filter (\<lambda>f. fcurve_name_format h f
                          \<notin> set (target_fcurve_name_formats h (selected_editable_fcurves ctx)))
                  (visible_fcurves ctx)
       \<and> set (fst (loop_end ctx h)) \<inter> set (fst (snd (loop_end ctx h))) = {}
       \<and> set (fst (loop_end ctx h)) \<union> set (fst (snd (loop_end ctx h))) = set (visible_fcurves ctx)"
  unfolding loop_end_lists loop_start_targets by auto

theorem focus_partition_witness:
  "selected_editable_fcurves editor_context \<noteq> []
   \<and> set (fst (loop_end editor_context scenario_host))
       \<inter> set (fst (snd (loop_end editor_context scenario_host))) = {}
   \<and> set (fst (loop_end editor_context scenario_host))
       \<union> set (fst (snd (loop_end editor_context scenario_host))) = {0, 1, 2}"
proof -
  have h: "selected_editable_fcurves editor_context \<noteq> []"
    by (simp add: editor_context_def scenario_context_def)
  have v: "set (visible_fcurves editor_context) = {0, 1, 2}"
    by (simp add: editor_context_def scenario_context_def)
  from focus_partition [OF h, of scenario_host]
  have a: "set (fst (loop_end editor_context scenario_host))
       \<inter> set (fst (snd (loop_end editor_context scenario_host))) = {}"
    and b: "set (fst (loop_end editor_context scenario_host))
       \<union> set (fst (snd (loop_end editor_context scenario_host)))
       = set (visible_fcurves editor_context)"
    by blast+
  show ?thesis using h a b [unfolded v] by (intro conjI)
qed

text \<open>
  C4. The selection is the curve \<open>bone["A"].location\<close> with index 0; \<open>bone["B"].location\<close>
  with index 0 and \<open>bone["A"].location\<close> with index 1 are visible too. The only target is
  \<open>bone.location[0]\<close>, the two curves with index 0 are shown and the curve with index 1 is
  hidden.
\<close>

theorem scenario_partition:
  "target_fcurve_name_formats scenario_host (selected_editable_fcurves scenario_context)
     = [''bone.location[0]'']
   \<and> fst (loop_end scenario_context scenario_host) = [0, 1]
   \<and> fst (snd (loop_end scenario_context scenario_host)) = [2]"
  by (simp add: loop_end_lists loop_start_targets target_fcurve_name_formats_def
        scenario_context_def scenario_formats)

text \<open>
  C9. With a non-empty selection and visible curves, the loop leaves the select flag of
  every visible curve true exactly when its name format is a target. The rest of
  \<open>execute\<close> (\<open>after_scan\<close>: both remaining aborts and every call of a host operator) runs
  on the state with these flags; in particular both aborts return it, with one more report.
\<close>

theorem select_flags_set_in_scan:
  assumes "selected_editable_fcurves ctx \<noteq> []" and "visible_fcurves ctx \<noteq> []"
  shows "(\<forall>f \<in> set (visible_fcurves ctx).
            select (fcurves (snd (snd (loop_end ctx h))) f) =
              (fcurve_name_format h f
                 \<in> set (target_fcurve_name_formats h (selected_editable_fcurves ctx))))
       \<and> GRAPH_OT_execute ops ctx h =
           after_scan ops ctx (fst (loop_end ctx h)) (snd (snd (loop_end ctx h)))
       \<and> (fst (loop_end ctx h) = [] \<longrightarrow>
            GRAPH_OT_execute ops ctx h =
              (Returned CANCELLED,
               report INFO ''No matching F-Curves found across all actions.''
                 (snd (snd (loop_end ctx h)))))
       \<and> (fst (loop_end ctx h) \<noteq> [] \<and>
          find (\<lambda>a. area_type a = ''GRAPH_EDITOR'') (screen_areas ctx) = None \<longrightarrow>
            GRAPH_OT_execute ops ctx h =
              (Returned CANCELLED,
               report WARNING ''No Graph Editor area found'' (snd (snd (loop_end ctx h)))))"
  by (simp add: execute_after_loop [OF assms] loop_end_store) (simp add: after_scan_def)

theorem select_flags_set_in_scan_witness:
  "selected_editable_fcurves scenario_context \<noteq> []
   \<and> visible_fcurves scenario_context \<noteq> []
   \<and> select (fcurves (snd (snd (loop_end scenario_context scenario_host))) 1)
   \<and> \<not> select (fcurves (snd (snd (loop_end scenario_context scenario_host))) 2)
   \<and> GRAPH_OT_execute idle_ops scenario_context scenario_host =
       (Returned CANCELLED,
        report WARNING ''No Graph Editor area found''
          (snd (snd (loop_end scenario_context scenario_host))))"
proof -
  have s: "selected_editable_fcurves scenario_context \<noteq> []"
    and v: "visible_fcurves scenario_context \<noteq> []"
    by (simp_all add: scenario_contexts)
  note t = select_flags_set_in_scan [OF s v, of scenario_host idle_ops]
  have in1: "1 \<in> set (visible_fcurves scenario_context)"
    and in2: "2 \<in> set (visible_fcurves scenario_context)"
    by (simp_all add: scenario_contexts)
  from t in1 have a: "select (fcurves (snd (snd (loop_end scenario_context scenario_host))) 1)"
    by (simp add: scenario_contexts scenario_targets scenario_formats)
  from t in2 have b: "\<not> select (fcurves (snd (snd (loop_end scenario_context scenario_host))) 2)"
    by (simp add: scenario_contexts scenario_targets scenario_formats)
  have ne: "fst (loop_end scenario_context scenario_host) \<noteq> []"
    by (simp add: scenario_show scenario_contexts)
  from t ne scenario_areas(1)
  have c: "GRAPH_OT_execute idle_ops scenario_context scenario_host =
       (Returned CANCELLED,
        report WARNING ''No Graph Editor area found''
          (snd (snd (loop_end scenario_context scenario_host))))"
    by blast
  show ?thesis using s v a b c by (intro conjI)
qed

section \<open>Properties of the preview-world operator\<close>

subsection \<open>Steps on the world under construction\<close>

lemma staged_update_world:
  "update_world (world_count h) f (staged h imgs w) = staged h imgs (f w)"
  by (simp add: update_world_def staged_def)

lemma staged_set_use_nodes:
  "set_use_nodes api (world_count h) (staged h imgs w) =
     staged h imgs (w\<lparr>use_nodes := True, nodes := default_nodes api, links := default_links api\<rparr>)"
  by (simp add: set_use_nodes_def staged_update_world)

lemma staged_nodes_clear:
  "nodes_clear (world_count h) (staged h imgs w) = staged h imgs (w\<lparr>nodes := [], links := []\<rparr>)"
  by (simp add: nodes_clear_def staged_update_world)

lemma staged_set_node:
  "set_node (world_count h) nid f (staged h imgs w) =
     staged h imgs (w\<lparr>nodes := (nodes w)[nid := f (nodes w ! nid)]\<rparr>)"
  by (simp add: set_node_def staged_update_world)

lemma staged_links_new:
  "links_new (world_count h) src dst (staged h imgs w) =
     staged h imgs (w\<lparr>links := links w @ [(src, dst)]\<rparr>)"
  by (simp add: links_new_def staged_update_world)

lemma staged_node_count: "node_count (world_count h) (staged h imgs w) = length (nodes w)"
  by (simp add: node_count_def staged_def)

lemma staged_nodes_new:
  "nodes_new api (world_count h) ty (staged h imgs w) =
     (case nodes_new_error api ty of
        Some e \<Rightarrow> (Inl e, staged h imgs w)
      | None \<Rightarrow> (Inr (length (nodes w)), staged h imgs (w\<lparr>nodes := nodes w @ [new_node ty]\<rparr>)))"
  by (simp add: nodes_new_def staged_update_world staged_node_count split: option.split)

lemma staged_images: "images (staged h imgs w) = imgs"
  by (simp add: staged_def)

lemma staged_set_images: "(staged h imgs w)\<lparr>images := imgs'\<rparr> = staged h imgs' w"
  by (simp add: staged_def)

lemmas staged_steps =
  staged_set_use_nodes staged_nodes_clear staged_set_node staged_links_new staged_nodes_new
  staged_images staged_set_images

text \<open>The operator up to the loading of the image.\<close>

lemma world_execute_start:
  assumes "get_studio_light_path (studio_lights api) (studio_light sh) = Some p"
    and "p \<noteq> []" and "path_exists api p"
    and "worlds_new_name api (''Preview '' @ studio_light sh) (worlds h) = Inr given"
  shows "WORLD_OT_execute api sh h =
     (case nodes_new_error api ''ShaderNodeTexEnvironment'' of
        Some e \<Rightarrow>
          (Raised e,
           staged h (images h)
             \<lparr>world_name = given, use_nodes = True, nodes = [], links = []\<rparr>)
      | None \<Rightarrow>
        (case load_image api p (images h) of
           Inl e \<Rightarrow>
             (Returned CANCELLED,
              report ERROR (''Failed to load image: '' @ exn_str e)
                (staged h (images h)
                   \<lparr>world_name = given, use_nodes = True,
                    nodes = [(new_node ''ShaderNodeTexEnvironment'')\<lparr>location := Some (- 300, 0)\<rparr>],
                    links = []\<rparr>))
         | Inr (img, imgs) \<Rightarrow>
             build_graph api sh (world_count h) 0
               (staged h imgs
                  \<lparr>world_name = given, use_nodes = True,
                   nodes = [(new_node ''ShaderNodeTexEnvironment'')
                              \<lparr>location := Some (- 300, 0), node_image := Some img\<rparr>],
                   links = []\<rparr>)))"
proof -
  have fold: "h\<lparr>worlds := (worlds h)(world_count h \<mapsto> w), world_count := Suc (world_count h),
                scene_world := Some (world_count h)\<rparr> =
      staged h (images h) w" for w
    by (simp add: staged_def)
  show ?thesis
    using assms
    by (simp add: WORLD_OT_execute_def Let_def worlds_new_def fold with_new_node_def staged_steps
          split: sum.split option.split)
qed

lemma world_execute_refused:
  assumes "get_studio_light_path (studio_lights api) (studio_light sh) = Some p"
    and "p \<noteq> []" and "path_exists api p"
    and "worlds_new_name api (''Preview '' @ studio_light sh) (worlds h) = Inl e"
  shows "WORLD_OT_execute api sh h = (Raised e, h)"
  using assms by (simp add: WORLD_OT_execute_def Let_def worlds_new_def)

lemma build_graph_finishes:
  assumes "graph_types_registered api"
  shows "build_graph api sh (world_count h) 0
           (staged h imgs \<lparr>world_name = nm, use_nodes = True, nodes = [env], links = []\<rparr>) =
    (Returned FINISHED,
     report INFO (''Copied HDRI '' @ [CHR 0x27] @ studio_light sh @ [CHR 0x27] @ '' to World'')
       (staged h imgs
         \<lparr>world_name = nm, use_nodes = True,
          nodes =
            [env,
             (new_node ''ShaderNodeBackground'')\<lparr>location := Some (0, 0)\<rparr>,
             (new_node ''ShaderNodeOutputWorld'')\<lparr>location := Some (200, 0)\<rparr>,
             (new_node ''ShaderNodeTexCoord'')\<lparr>location := Some (- 1200, 0)\<rparr>,
             (new_node ''ShaderNodeMapping'')
               \<lparr>location := Some (- 900, 0),
                default_value := [(ByName ''Rotation'', Some 2) \<mapsto> studiolight_rotate_z sh]\<rparr>,
             (new_node ''ShaderNodeMix'')
               \<lparr>location := Some (- 600, 0), node_label := Some ''Blur'',
                data_type := Some ''VECTOR'',
                default_value := [(ByIndex 0, None) \<mapsto> studiolight_background_blur sh]\<rparr>,
             (new_node ''ShaderNodeTexNoise'')
               \<lparr>location := Some (- 900, 300),
                default_value := [(ByName ''Scale'', None) \<mapsto> 30000]\<rparr>,
             (new_node ''ShaderNodeVectorMath'')
               \<lparr>location := Some (- 700, 300), operation := Some ''SUBTRACT'',
                default_value := [(ByIndex 1, Some 0) \<mapsto> 1 / 2,
                                  (ByIndex 1, Some 1) \<mapsto> 1 / 2,
                                  (ByIndex 1, Some 2) \<mapsto> 1 / 2]\<rparr>],
          links =
            [((0, ByName ''Color''), (1, ByName ''Color'')),
             ((1, ByName ''Background''), (2, ByName ''Surface'')),
             ((3, ByName ''Generated''), (4, ByName ''Vector'')),
             ((6, ByName ''Color''), (7, ByIndex 0)),
             ((7, ByName ''Vector''), (5, ByIndex 5)),
             ((4, ByName ''Vector''), (5, ByIndex 4)),
             ((5, ByIndex 1), (0, ByName ''Vector''))]\<rparr>))"
  using assms
  by (simp add: graph_types_registered_def build_graph_def Let_def with_new_node_def staged_steps
        new_node_def eval_nat_numeral)

text \<open>When the host fails to create one of the nodes, that exception is the outcome.\<close>

lemma build_graph_raises:
  assumes "find (\<lambda>ty. nodes_new_error api ty \<noteq> None) graph_node_types = Some ty"
    and "nodes_new_error api ty = Some e"
  shows "fst (build_graph api sh (world_count h) 0
                (staged h imgs \<lparr>world_name = nm, use_nodes = True, nodes = [env], links = []\<rparr>))
         = Raised e"
  using assms
  by (auto simp: graph_node_types_def build_graph_def Let_def with_new_node_def staged_steps
        split: if_splits)

lemma build_graph_finished_registered:
  assumes "fst (build_graph api sh (world_count h) 0
                  (staged h imgs \<lparr>world_name = nm, use_nodes = True, nodes = [env], links = []\<rparr>))
           = Returned FINISHED"
  shows "graph_types_registered api"
  using assms
  by (simp add: graph_types_registered_def build_graph_def Let_def with_new_node_def staged_steps
        split: option.splits)

subsection \<open>The operator as a whole\<close>

lemma world_execute_missing:
  assumes "studio_light_missing api sh"
  shows "WORLD_OT_execute api sh h =
     (Returned CANCELLED,
      report ERROR (''Could not find path for studio light: '' @ studio_light sh) h)"
  using assms
  by (auto simp: studio_light_missing_def WORLD_OT_execute_def Let_def split: option.splits)

lemma world_execute_found:
  assumes "\<not> studio_light_missing api sh"
  obtains p where "get_studio_light_path (studio_lights api) (studio_light sh) = Some p"
    and "p \<noteq> []" and "path_exists api p"
  using assms by (auto simp: studio_light_missing_def split: option.splits)

lemma world_finished_cases:
  assumes fin: "fst (WORLD_OT_execute api sh h) = Returned FINISHED"
  obtains p given img imgs where
    "get_studio_light_path (studio_lights api) (studio_light sh) = Some p"
    "p \<noteq> []" "path_exists api p"
    "worlds_new_name api (''Preview '' @ studio_light sh) (worlds h) = Inr given"
    "nodes_new_error api ''ShaderNodeTexEnvironment'' = None"
    "load_image api p (images h) = Inr (img, imgs)"
    "graph_types_registered api"
proof -
  have "\<not> studio_light_missing api sh"
    using fin world_execute_missing [of api sh h] by auto
  then obtain p where p: "get_studio_light_path (studio_lights api) (studio_light sh) = Some p"
    "p \<noteq> []" "path_exists api p"
    by (rule world_execute_found)
  obtain given where
    nm: "worlds_new_name api (''Preview '' @ studio_light sh) (worlds h) = Inr given"
    using fin world_execute_refused [OF p, of h]
    by (cases "worlds_new_name api (''Preview '' @ studio_light sh) (worlds h)") auto
  note st = world_execute_start [OF p nm]
  have reg: "nodes_new_error api ''ShaderNodeTexEnvironment'' = None"
    using fin st by (auto split: option.splits)
  obtain img imgs where ld: "load_image api p (images h) = Inr (img, imgs)"
    using fin st reg by (cases "load_image api p (images h)") auto
  have "graph_types_registered api"
    using fin st reg ld by (auto dest: build_graph_finished_registered)
  with p nm reg ld show ?thesis by (rule that)
qed

subsection \<open>The concrete hosts, evaluated\<close>

lemma forest_path:
  "get_studio_light_path (studio_lights full_api) (studio_light forest_shading)
     = Some ''/lights/forest.exr''"
  "get_studio_light_path (studio_lights unreadable_api) (studio_light forest_shading)
     = Some ''/lights/forest.exr''"
  "get_studio_light_path (studio_lights mixless_api) (studio_light forest_shading)
     = Some ''/lights/forest.exr''"
  "get_studio_light_path (studio_lights worldless_api) (studio_light forest_shading)
     = Some ''/lights/forest.exr''"
  "get_studio_light_path (studio_lights no_lights_api) (studio_light forest_shading) = None"
  by (simp_all add: full_api_def unreadable_api_def mixless_api_def worldless_api_def
        no_lights_api_def forest_shading_def)

lemma forest_exists:
  "path_exists full_api p" "path_exists unreadable_api p" "path_exists mixless_api p"
  "path_exists worldless_api p"
  by (simp_all add: full_api_def unreadable_api_def mixless_api_def worldless_api_def)

lemma forest_registered:
  "nodes_new_error full_api ty = None" "nodes_new_error unreadable_api ty = None"
  "nodes_new_error mixless_api ty =
     (if ty = ''ShaderNodeMix''
      then Some (RuntimeError (''Error: Node type ShaderNodeMix undefined'' @ [CHR 0x0A]))
      else None)"
  by (simp_all add: full_api_def unreadable_api_def mixless_api_def)

lemma forest_world_name:
  "worlds_new_name full_api name Map.empty = Inr name"
  "worlds_new_name unreadable_api name Map.empty = Inr name"
  "worlds_new_name mixless_api name Map.empty = Inr name"
  "worlds_new_name worldless_api name ws = Inl (RuntimeError ''cannot create world'')"
  by (simp_all add: full_api_def unreadable_api_def mixless_api_def worldless_api_def)

lemma forest_load:
  "load_image full_api ''/lights/forest.exr'' [] =
     Inr (\<lparr>image_name = ''forest.exr'', filepath = ''/lights/forest.exr''\<rparr>,
          [\<lparr>image_name = ''forest.exr'', filepath = ''/lights/forest.exr''\<rparr>])"
  "load_image mixless_api ''/lights/forest.exr'' [] =
     Inr (\<lparr>image_name = ''forest.exr'', filepath = ''/lights/forest.exr''\<rparr>,
          [\<lparr>image_name = ''forest.exr'', filepath = ''/lights/forest.exr''\<rparr>])"
  "load_image unreadable_api ''/lights/forest.exr'' [] = Inl (RuntimeError ''cannot read file'')"
  by (simp_all add: load_image_def full_api_def unreadable_api_def mixless_api_def basename_def)

lemma empty_blend_fields:
  "worlds empty_blend = Map.empty" "images empty_blend = []" "reports empty_blend = []"
  "scene_world empty_blend = None" "world_count empty_blend = 0"
  by (simp_all add: empty_blend_def)

lemma forest_finishes:
  "WORLD_OT_execute full_api forest_shading empty_blend =
     build_graph full_api forest_shading (world_count empty_blend) 0
       (staged empty_blend
          [\<lparr>image_name = ''forest.exr'', filepath = ''/lights/forest.exr''\<rparr>]
          \<lparr>world_name = ''Preview '' @ studio_light forest_shading, use_nodes = True,
            nodes = [(new_node ''ShaderNodeTexEnvironment'')
                       \<lparr>location := Some (- 300, 0),
                        node_image := Some \<lparr>image_name = ''forest.exr'',
                                             filepath = ''/lights/forest.exr''\<rparr>\<rparr>],
            links = []\<rparr>)"
proof -
  have nm: "worlds_new_name full_api (''Preview '' @ studio_light forest_shading)
      (worlds empty_blend) = Inr (''Preview '' @ studio_light forest_shading)"
    by (simp add: empty_blend_fields forest_world_name)
  show ?thesis
    using world_execute_start [OF forest_path(1) _ forest_exists(1) nm]
    by (simp add: forest_registered empty_blend_fields(2) forest_load)
qed

lemma full_api_graph_types: "graph_types_registered full_api"
  by (simp add: graph_types_registered_def forest_registered)

lemma forest_finished:
  "fst (WORLD_OT_execute full_api forest_shading empty_blend) = Returned FINISHED"
  unfolding forest_finishes build_graph_finishes [OF full_api_graph_types] by simp

text \<open>
  A second invocation on the state that the first one left: the name asked for is taken,
  so the host gives the new world another name; the image is found in the image
  collection and not loaded again; the first world stays as it is and the second one
  becomes the scene's world.
\<close>

lemma forest_taken:
  assumes "worlds h = [0 \<mapsto> w]" and "world_name w = ''Preview forest.exr''"
  shows "worlds_new_name full_api (''Preview '' @ studio_light forest_shading) (worlds h)
         = Inr ''Preview forest.exr.001''"
  using assms by (simp add: full_api_def forest_shading_def)

lemma forest_found:
  "load_image full_api ''/lights/forest.exr''
     [\<lparr>image_name = ''forest.exr'', filepath = ''/lights/forest.exr''\<rparr>] =
   Inr (\<lparr>image_name = ''forest.exr'', filepath = ''/lights/forest.exr''\<rparr>,
        [\<lparr>image_name = ''forest.exr'', filepath = ''/lights/forest.exr''\<rparr>])"
  by (simp add: load_image_def basename_def)

lemma forest_twice:
  "fst (WORLD_OT_execute full_api forest_shading
          (snd (WORLD_OT_execute full_api forest_shading empty_blend))) = Returned FINISHED
   \<and> map_option world_name
        (worlds (snd (WORLD_OT_execute full_api forest_shading
                        (snd (WORLD_OT_execute full_api forest_shading empty_blend)))) 0)
       = Some ''Preview forest.exr''
   \<and> map_option world_name
        (worlds (snd (WORLD_OT_execute full_api forest_shading
                        (snd (WORLD_OT_execute full_api forest_shading empty_blend)))) 1)
       = Some ''Preview forest.exr.001''
   \<and> scene_world (snd (WORLD_OT_execute full_api forest_shading
                          (snd (WORLD_OT_execute full_api forest_shading empty_blend))))
       = Some 1
   \<and> images (snd (WORLD_OT_execute full_api forest_shading
                     (snd (WORLD_OT_execute full_api forest_shading empty_blend))))
       = [\<lparr>image_name = ''forest.exr'', filepath = ''/lights/forest.exr''\<rparr>]"
proof -
  define h1 where "h1 = snd (WORLD_OT_execute full_api forest_shading empty_blend)"
  have first:
    "world_count h1 = Suc 0"
    "world_count h1 = 1"
    "images h1 = [\<lparr>image_name = ''forest.exr'', filepath = ''/lights/forest.exr''\<rparr>]"
    unfolding h1_def forest_finishes build_graph_finishes [OF full_api_graph_types]
    by (simp_all add: report_def staged_def empty_blend_fields forest_shading_def)
  have "\<exists>w. worlds h1 = [0 \<mapsto> w] \<and> world_name w = ''Preview forest.exr''"
    unfolding h1_def forest_finishes build_graph_finishes [OF full_api_graph_types]
    apply (simp add: report_def staged_def empty_blend_fields forest_shading_def)
    apply (rule exI, rule conjI, rule refl)
    apply simp
    done
  then obtain w where w: "worlds h1 = [0 \<mapsto> w]" "world_name w = ''Preview forest.exr''"
    by blast
  define env where
    "env = (new_node ''ShaderNodeTexEnvironment'')
             \<lparr>location := Some (- 300, 0),
              node_image := Some \<lparr>image_name = ''forest.exr'',
                                   filepath = ''/lights/forest.exr''\<rparr>\<rparr>"
  have ex: "WORLD_OT_execute full_api forest_shading h1 =
      build_graph full_api forest_shading (world_count h1) 0
        (staged h1 [\<lparr>image_name = ''forest.exr'', filepath = ''/lights/forest.exr''\<rparr>]
           \<lparr>world_name = ''Preview forest.exr.001'', use_nodes = True, nodes = [env],
            links = []\<rparr>)"
    using world_execute_start [OF forest_path(1) _ forest_exists(1) forest_taken [OF w]]
    by (simp add: forest_registered first(3) forest_found env_def)
  have second:
    "fst (WORLD_OT_execute full_api forest_shading h1) = Returned FINISHED"
    "map_option world_name (worlds (snd (WORLD_OT_execute full_api forest_shading h1)) 0)
       = Some ''Preview forest.exr''"
    "map_option world_name (worlds (snd (WORLD_OT_execute full_api forest_shading h1)) 1)
       = Some ''Preview forest.exr.001''"
    "scene_world (snd (WORLD_OT_execute full_api forest_shading h1)) = Some 1"
    "images (snd (WORLD_OT_execute full_api forest_shading h1))
       = [\<lparr>image_name = ''forest.exr'', filepath = ''/lights/forest.exr''\<rparr>]"
    unfolding ex build_graph_finishes [OF full_api_graph_types]
    by (simp_all add: report_def staged_def first(1) w)
  show ?thesis using second unfolding h1_def by (intro conjI)
qed

subsection \<open>Claims about the preview-world operator\<close>

text \<open>
  C7, as stated: a successful invocation leaves a node graph of exactly 6 nodes. On a host
  that has the studio light on disk and creates every node asked for, the invocation
  finishes, and the world that is then the scene's world has 8 nodes and 7 links.
\<close>

theorem preview_world_has_eight_nodes:
  "fst (WORLD_OT_execute full_api forest_shading empty_blend) = Returned FINISHED
   \<and> scene_world (snd (WORLD_OT_execute full_api forest_shading empty_blend)) = Some 0
   \<and> map_option (\<lambda>w. length (nodes w))
        (worlds (snd (WORLD_OT_execute full_api forest_shading empty_blend)) 0) = Some 8
   \<and> map_option (\<lambda>w. length (links w))
        (worlds (snd (WORLD_OT_execute full_api forest_shading empty_blend)) 0) = Some 7"
  unfolding forest_finishes build_graph_finishes [OF full_api_graph_types]
  by (simp add: empty_blend_fields report_def staged_def)

text \<open>
  C7, amended: every invocation that finishes has resolved the studio light's path,
  created one world data block, under the name the host gave it for the request
  \<open>Preview <studio light>\<close>, and made it the scene's world; no other world is touched. The
  image collection is the one that looking up and loading the image at that path left,
  and the environment texture node holds exactly the image that this returned. The graph
  has exactly 8 nodes (environment texture, background, world output, texture coordinate,
  mapping, mix labelled Blur, noise texture, vector math) wired by 7 fixed links, and
  exactly two values come from the viewport's shading: input 0 of the mix node is
  \<open>studiolight_background_blur\<close> and component 2 of the mapping node's Rotation is
  \<open>studiolight_rotate_z\<close>.
\<close>

theorem preview_world_graph:
  assumes "fst (WORLD_OT_execute api sh h) = Returned FINISHED"
  shows "\<exists>p given img imgs.
    get_studio_light_path (studio_lights api) (studio_light sh) = Some p
    \<and> worlds_new_name api (''Preview '' @ studio_light sh) (worlds h) = Inr given
    \<and> load_image api p (images h) = Inr (img, imgs)
    \<and> images (snd (WORLD_OT_execute api sh h)) = imgs
    \<and> scene_world (snd (WORLD_OT_execute api sh h)) = Some (world_count h)
    \<and> world_count (snd (WORLD_OT_execute api sh h)) = Suc (world_count h)
    \<and> worlds (snd (WORLD_OT_execute api sh h)) =
      (worlds h)(world_count h \<mapsto>
        \<lparr>world_name = given, use_nodes = True,
          nodes =
            [(new_node ''ShaderNodeTexEnvironment'')
               \<lparr>location := Some (- 300, 0), node_image := Some img\<rparr>,
             (new_node ''ShaderNodeBackground'')\<lparr>location := Some (0, 0)\<rparr>,
             (new_node ''ShaderNodeOutputWorld'')\<lparr>location := Some (200, 0)\<rparr>,
             (new_node ''ShaderNodeTexCoord'')\<lparr>location := Some (- 1200, 0)\<rparr>,
             (new_node ''ShaderNodeMapping'')
               \<lparr>location := Some (- 900, 0),
                default_value := [(ByName ''Rotation'', Some 2) \<mapsto> studiolight_rotate_z sh]\<rparr>,
             (new_node ''ShaderNodeMix'')
               \<lparr>location := Some (- 600, 0), node_label := Some ''Blur'',
                data_type := Some ''VECTOR'',
                default_value := [(ByIndex 0, None) \<mapsto> studiolight_background_blur sh]\<rparr>,
             (new_node ''ShaderNodeTexNoise'')
               \<lparr>location := Some (- 900, 300),
                default_value := [(ByName ''Scale'', None) \<mapsto> 30000]\<rparr>,
             (new_node ''ShaderNodeVectorMath'')
               \<lparr>location := Some (- 700, 300), operation := Some ''SUBTRACT'',
                default_value := [(ByIndex 1, Some 0) \<mapsto> 1 / 2,
                                  (ByIndex 1, Some 1) \<mapsto> 1 / 2,
                                  (ByIndex 1, Some 2) \<mapsto> 1 / 2]\<rparr>],
          links =
            [((0, ByName ''Color''), (1, ByName ''Color'')),
             ((1, ByName ''Background''), (2, ByName ''Surface'')),
             ((3, ByName ''Generated''), (4, ByName ''Vector'')),
             ((6, ByName ''Color''), (7, ByIndex 0)),
             ((7, ByName ''Vector''), (5, ByIndex 5)),
             ((4, ByName ''Vector''), (5, ByIndex 4)),
             ((5, ByIndex 1), (0, ByName ''Vector''))]\<rparr>)"
proof -
  from assms obtain p given img imgs where
    p: "get_studio_light_path (studio_lights api) (studio_light sh) = Some p"
       "p \<noteq> []" "path_exists api p"
    and nm: "worlds_new_name api (''Preview '' @ studio_light sh) (worlds h) = Inr given"
    and reg: "nodes_new_error api ''ShaderNodeTexEnvironment'' = None"
    and ld: "load_image api p (images h) = Inr (img, imgs)"
    and gt: "graph_types_registered api"
    by (rule world_finished_cases)
  define env where
    "env = (new_node ''ShaderNodeTexEnvironment'')
             \<lparr>location := Some (- 300, 0), node_image := Some img\<rparr>"
  note bg = build_graph_finishes [OF gt, of sh h imgs given env]
  have ex: "WORLD_OT_execute api sh h =
      build_graph api sh (world_count h) 0
        (staged h imgs \<lparr>world_name = given, use_nodes = True, nodes = [env], links = []\<rparr>)"
    using reg ld by (simp add: world_execute_start [OF p nm] env_def)
  show ?thesis
    unfolding ex bg
    using p(1) nm ld
    by (intro exI [of _ p, OF exI [of _ given, OF exI [of _ img, OF exI [of _ imgs]]]])
       (simp add: report_def staged_def env_def)
qed

theorem preview_world_graph_witness:
  "fst (WORLD_OT_execute full_api forest_shading empty_blend) = Returned FINISHED
   \<and> images (snd (WORLD_OT_execute full_api forest_shading empty_blend)) =
       [\<lparr>image_name = ''forest.exr'', filepath = ''/lights/forest.exr''\<rparr>]
   \<and> scene_world (snd (WORLD_OT_execute full_api forest_shading empty_blend)) = Some 0
   \<and> map_option (\<lambda>w. node_image (hd (nodes w)))
        (worlds (snd (WORLD_OT_execute full_api forest_shading empty_blend)) 0) =
       Some (Some \<lparr>image_name = ''forest.exr'', filepath = ''/lights/forest.exr''\<rparr>)
   \<and> map_option world_name
        (worlds (snd (WORLD_OT_execute full_api forest_shading empty_blend)) 0) =
       Some ''Preview forest.exr''"
proof -
  note f = forest_finished
  from preview_world_graph [OF f] obtain p given img imgs where
    p: "get_studio_light_path (studio_lights full_api) (studio_light forest_shading) = Some p"
    and nm: "worlds_new_name full_api (''Preview '' @ studio_light forest_shading)
               (worlds empty_blend) = Inr given"
    and ld: "load_image full_api p (images empty_blend) = Inr (img, imgs)"
    and im: "images (snd (WORLD_OT_execute full_api forest_shading empty_blend)) = imgs"
    and sc: "scene_world (snd (WORLD_OT_execute full_api forest_shading empty_blend))
               = Some (world_count empty_blend)"
    and w: "worlds (snd (WORLD_OT_execute full_api forest_shading empty_blend)) =
      (worlds empty_blend)(world_count empty_blend \<mapsto>
        \<lparr>world_name = given, use_nodes = True,
          nodes =
            [(new_node ''ShaderNodeTexEnvironment'')
               \<lparr>location := Some (- 300, 0), node_image := Some img\<rparr>,
             (new_node ''ShaderNodeBackground'')\<lparr>location := Some (0, 0)\<rparr>,
             (new_node ''ShaderNodeOutputWorld'')\<lparr>location := Some (200, 0)\<rparr>,
             (new_node ''ShaderNodeTexCoord'')\<lparr>location := Some (- 1200, 0)\<rparr>,
             (new_node ''ShaderNodeMapping'')
               \<lparr>location := Some (- 900, 0),
                default_value :=
                  [(ByName ''Rotation'', Some 2) \<mapsto> studiolight_rotate_z forest_shading]\<rparr>,
             (new_node ''ShaderNodeMix'')
               \<lparr>location := Some (- 600, 0), node_label := Some ''Blur'',
                data_type := Some ''VECTOR'',
                default_value :=
                  [(ByIndex 0, None) \<mapsto> studiolight_background_blur forest_shading]\<rparr>,
             (new_node ''ShaderNodeTexNoise'')
               \<lparr>location := Some (- 900, 300),
                default_value := [(ByName ''Scale'', None) \<mapsto> 30000]\<rparr>,
             (new_node ''ShaderNodeVectorMath'')
               \<lparr>location := Some (- 700, 300), operation := Some ''SUBTRACT'',
                default_value := [(ByIndex 1, Some 0) \<mapsto> 1 / 2,
                                  (ByIndex 1, Some 1) \<mapsto> 1 / 2,
                                  (ByIndex 1, Some 2) \<mapsto> 1 / 2]\<rparr>],
          links =
            [((0, ByName ''Color''), (1, ByName ''Color'')),
             ((1, ByName ''Background''), (2, ByName ''Surface'')),
             ((3, ByName ''Generated''), (4, ByName ''Vector'')),
             ((6, ByName ''Color''), (7, ByIndex 0)),
             ((7, ByName ''Vector''), (5, ByIndex 5)),
             ((4, ByName ''Vector''), (5, ByIndex 4)),
             ((5, ByIndex 1), (0, ByName ''Vector''))]\<rparr>)"
    by blast
  have p': "p = ''/lights/forest.exr''"
    using p forest_path(1) by simp
  have given: "given = ''Preview forest.exr''"
    using nm by (simp add: empty_blend_fields forest_world_name forest_shading_def)
  have img: "img = \<lparr>image_name = ''forest.exr'', filepath = ''/lights/forest.exr''\<rparr>"
    and imgs: "imgs = [\<lparr>image_name = ''forest.exr'', filepath = ''/lights/forest.exr''\<rparr>]"
    using ld unfolding p' by (auto simp: empty_blend_fields forest_load)
  have a: "images (snd (WORLD_OT_execute full_api forest_shading empty_blend)) =
       [\<lparr>image_name = ''forest.exr'', filepath = ''/lights/forest.exr''\<rparr>]"
    using im imgs by simp
  have b: "scene_world (snd (WORLD_OT_execute full_api forest_shading empty_blend)) = Some 0"
    using sc by (simp add: empty_blend_fields)
  have c: "map_option (\<lambda>w. node_image (hd (nodes w)))
        (worlds (snd (WORLD_OT_execute full_api forest_shading empty_blend)) 0) =
       Some (Some \<lparr>image_name = ''forest.exr'', filepath = ''/lights/forest.exr''\<rparr>)"
    unfolding w by (simp add: empty_blend_fields img)
  have d: "map_option world_name
        (worlds (snd (WORLD_OT_execute full_api forest_shading empty_blend)) 0) =
       Some ''Preview forest.exr''"
    unfolding w by (simp add: empty_blend_fields given)
  show ?thesis using f a b c d by (intro conjI)
qed

text \<open>
  C10. The new world is created and made the scene's world before the image is loaded:
  when loading raises, the invocation returns cancelled with an error report, and the
  scene's world is the new world, which holds one environment texture node without image
  and no link.
\<close>

theorem world_replaced_before_load:
  assumes "get_studio_light_path (studio_lights api) (studio_light sh) = Some p"
    and "p \<noteq> []" and "path_exists api p"
    and "worlds_new_name api (''Preview '' @ studio_light sh) (worlds h) = Inr given"
    and "nodes_new_error api ''ShaderNodeTexEnvironment'' = None"
    and "load_image api p (images h) = Inl e"
  shows "fst (WORLD_OT_execute api sh h) = Returned CANCELLED
       \<and> reports (snd (WORLD_OT_execute api sh h)) =
           reports h @ [(ERROR, ''Failed to load image: '' @ exn_str e)]
       \<and> worlds (snd (WORLD_OT_execute api sh h)) =
           (worlds h)(world_count h \<mapsto>
             \<lparr>world_name = given, use_nodes = True,
               nodes = [(new_node ''ShaderNodeTexEnvironment'')\<lparr>location := Some (- 300, 0)\<rparr>],
               links = []\<rparr>)
       \<and> world_count (snd (WORLD_OT_execute api sh h)) = Suc (world_count h)
       \<and> scene_world (snd (WORLD_OT_execute api sh h)) = Some (world_count h)
       \<and> images (snd (WORLD_OT_execute api sh h)) = images h"
  using assms(5,6) by (simp add: world_execute_start [OF assms(1-4)] report_def staged_def)

theorem world_replaced_before_load_witness:
  "get_studio_light_path (studio_lights unreadable_api) (studio_light forest_shading)
     = Some ''/lights/forest.exr''
   \<and> ''/lights/forest.exr'' \<noteq> []
   \<and> path_exists unreadable_api ''/lights/forest.exr''
   \<and> worlds_new_name unreadable_api (''Preview '' @ studio_light forest_shading)
        (worlds empty_blend) = Inr (''Preview '' @ studio_light forest_shading)
   \<and> nodes_new_error unreadable_api ''ShaderNodeTexEnvironment'' = None
   \<and> load_image unreadable_api ''/lights/forest.exr'' (images empty_blend)
       = Inl (RuntimeError ''cannot read file'')
   \<and> fst (WORLD_OT_execute unreadable_api forest_shading empty_blend) = Returned CANCELLED
   \<and> scene_world (snd (WORLD_OT_execute unreadable_api forest_shading empty_blend)) = Some 0
   \<and> scene_world empty_blend = None"
proof -
  have a: "get_studio_light_path (studio_lights unreadable_api) (studio_light forest_shading)
     = Some ''/lights/forest.exr''" by (rule forest_path)
  have b: "''/lights/forest.exr'' \<noteq> []" by simp
  have c: "path_exists unreadable_api ''/lights/forest.exr''" by (rule forest_exists)
  have n: "worlds_new_name unreadable_api (''Preview '' @ studio_light forest_shading)
        (worlds empty_blend) = Inr (''Preview '' @ studio_light forest_shading)"
    by (simp add: empty_blend_fields forest_world_name)
  have d: "nodes_new_error unreadable_api ''ShaderNodeTexEnvironment'' = None"
    by (rule forest_registered)
  have e: "load_image unreadable_api ''/lights/forest.exr'' (images empty_blend)
       = Inl (RuntimeError ''cannot read file'')"
    by (simp add: empty_blend_fields forest_load)
  note t = world_replaced_before_load [OF a b c n d e]
  from t have f: "fst (WORLD_OT_execute unreadable_api forest_shading empty_blend)
      = Returned CANCELLED" by blast
  from t have g: "scene_world (snd (WORLD_OT_execute unreadable_api forest_shading empty_blend))
      = Some 0" by (simp add: empty_blend_fields)
  show ?thesis using a b c n d e f g empty_blend_fields(4) by (intro conjI)
qed

section \<open>Aborted invocations and exceptions, for both operators\<close>

subsection \<open>Evaluations\<close>

lemma execute_nothing_visible:
  assumes "selected_editable_fcurves ctx \<noteq> []" and "visible_fcurves ctx = []"
  shows "GRAPH_OT_execute ops ctx h =
     (Returned CANCELLED,
      report WARNING ''No F-Curves found in any action.'' (snd (loop_start ctx h)))"
  using assms by (simp add: GRAPH_OT_execute_def split: prod.splits)

lemma loop_start_fcurves: "fcurves (snd (loop_start ctx h)) = fcurves h"
  by (simp add: loop_start_def Let_def print_def report_def)

lemma scenario_no_area:
  "GRAPH_OT_execute ops scenario_context scenario_host =
     (Returned CANCELLED,
      report WARNING ''No Graph Editor area found''
        (snd (snd (loop_end scenario_context scenario_host))))"
  by (simp add: execute_after_loop scenario_contexts after_scan_def scenario_show scenario_areas)

lemma no_lights_missing: "studio_light_missing no_lights_api forest_shading"
  by (simp add: studio_light_missing_def forest_path)

lemma world_execute_node_raises:
  assumes p: "get_studio_light_path (studio_lights api) (studio_light sh) = Some p"
      "p \<noteq> []" "path_exists api p"
    and nm: "worlds_new_name api (''Preview '' @ studio_light sh) (worlds h) = Inr given"
    and fd: "find (\<lambda>ty. nodes_new_error api ty \<noteq> None) requested_node_types = Some ty"
    and er: "nodes_new_error api ty = Some e"
    and ld: "ty \<noteq> ''ShaderNodeTexEnvironment'' \<Longrightarrow> load_image api p (images h) = Inr (img, imgs)"
  shows "fst (WORLD_OT_execute api sh h) = Raised e"
proof (cases "ty = ''ShaderNodeTexEnvironment''")
  case True
  with er show ?thesis by (simp add: world_execute_start [OF p nm])
next
  case False
  with fd have env: "nodes_new_error api ''ShaderNodeTexEnvironment'' = None"
    and rest: "find (\<lambda>ty. nodes_new_error api ty \<noteq> None) graph_node_types = Some ty"
    by (auto simp: requested_node_types_def split: if_splits)
  from build_graph_raises [OF rest er] env ld [OF False] show ?thesis
    by (simp add: world_execute_start [OF p nm])
qed

lemma mixless_first:
  "find (\<lambda>ty. nodes_new_error mixless_api ty \<noteq> None) requested_node_types
     = Some ''ShaderNodeMix''"
  by (simp add: requested_node_types_def graph_node_types_def forest_registered)

lemma mixless_raises:
  "fst (WORLD_OT_execute mixless_api forest_shading empty_blend) =
     Raised (RuntimeError (''Error: Node type ShaderNodeMix undefined'' @ [CHR 0x0A]))"
proof -
  have nm: "worlds_new_name mixless_api (''Preview '' @ studio_light forest_shading)
      (worlds empty_blend) = Inr (''Preview '' @ studio_light forest_shading)"
    by (simp add: empty_blend_fields forest_world_name)
  have ld: "load_image mixless_api ''/lights/forest.exr'' (images empty_blend) =
     Inr (\<lparr>image_name = ''forest.exr'', filepath = ''/lights/forest.exr''\<rparr>,
          [\<lparr>image_name = ''forest.exr'', filepath = ''/lights/forest.exr''\<rparr>])"
    by (simp add: empty_blend_fields forest_load)
  have er: "nodes_new_error mixless_api ''ShaderNodeMix'' =
      Some (RuntimeError (''Error: Node type ShaderNodeMix undefined'' @ [CHR 0x0A]))"
    by (simp add: forest_registered)
  show ?thesis
    by (rule world_execute_node_raises [OF forest_path(3) _ forest_exists(3) nm mixless_first er ld])
       simp
qed

lemma headless_raises:
  "fst (GRAPH_OT_execute ops headless_context scenario_host) = Raised StopIteration"
  by (simp add: execute_after_loop scenario_contexts after_scan_def scenario_show scenario_areas)

lemma failing_reveal:
  "show_all_ops failing_ops h = (Some (RuntimeError ''poll failed''), h)"
  "focus_ops failing_ops ov h = (Some (RuntimeError ''poll failed''), h)"
  by (simp_all add: show_all_ops_def focus_ops_def failing_ops_def idle_ops_def)

subsection \<open>Claims\<close>

text \<open>
  C5, as stated: an invocation that does not finish changes no host-owned state. With the
  scenario's curves on a screen that has no Graph Editor area, the focus operator returns
  cancelled, and the curve \<open>bone["B"].location\<close> with index 0, which was not selected, is
  selected afterwards.
\<close>

theorem abort_after_scan_changes_flags:
  "fst (GRAPH_OT_execute idle_ops scenario_context scenario_host) = Returned CANCELLED
   \<and> \<not> select (fcurves scenario_host 1)
   \<and> select (fcurves (snd (GRAPH_OT_execute idle_ops scenario_context scenario_host)) 1)"
  by (simp add: scenario_no_area report_def scenario_flags scenario_contexts)
     (simp add: scenario_host_def curve_def)

text \<open>
  C5, amended: an invocation that stops at one of the first checks changes no host-owned
  data and only reports. For the focus operator that is a non-empty selection with no
  visible curve: it returns cancelled and every curve is as before. For the preview-world
  operator that is a studio light whose path is missing, empty or not on disk: it returns
  cancelled, and the world data blocks, the scene's world and the image collection are as
  before.
\<close>

theorem early_aborts_change_nothing:
  "(selected_editable_fcurves ctx \<noteq> [] \<and> visible_fcurves ctx = [] \<longrightarrow>
      fst (GRAPH_OT_execute ops ctx h) = Returned CANCELLED
      \<and> fcurves (snd (GRAPH_OT_execute ops ctx h)) = fcurves h)
   \<and> (studio_light_missing api sh \<longrightarrow>
      fst (WORLD_OT_execute api sh w) = Returned CANCELLED
      \<and> worlds (snd (WORLD_OT_execute api sh w)) = worlds w
      \<and> world_count (snd (WORLD_OT_execute api sh w)) = world_count w
      \<and> scene_world (snd (WORLD_OT_execute api sh w)) = scene_world w
      \<and> images (snd (WORLD_OT_execute api sh w)) = images w)"
  by (simp add: execute_nothing_visible world_execute_missing report_def loop_start_fcurves)

theorem early_aborts_change_nothing_witness:
  "selected_editable_fcurves blind_context \<noteq> [] \<and> visible_fcurves blind_context = []
   \<and> studio_light_missing no_lights_api forest_shading
   \<and> fst (GRAPH_OT_execute idle_ops blind_context scenario_host) = Returned CANCELLED
   \<and> fcurves (snd (GRAPH_OT_execute idle_ops blind_context scenario_host)) = fcurves scenario_host
   \<and> fst (WORLD_OT_execute no_lights_api forest_shading empty_blend) = Returned CANCELLED
   \<and> worlds (snd (WORLD_OT_execute no_lights_api forest_shading empty_blend)) = worlds empty_blend
   \<and> world_count (snd (WORLD_OT_execute no_lights_api forest_shading empty_blend))
       = world_count empty_blend
   \<and> scene_world (snd (WORLD_OT_execute no_lights_api forest_shading empty_blend))
       = scene_world empty_blend
   \<and> images (snd (WORLD_OT_execute no_lights_api forest_shading empty_blend)) = images empty_blend"
proof -
  have a: "selected_editable_fcurves blind_context \<noteq> [] \<and> visible_fcurves blind_context = []"
    by (simp add: scenario_contexts)
  note m = no_lights_missing
  note t = early_aborts_change_nothing
    [of blind_context idle_ops scenario_host no_lights_api forest_shading empty_blend]
  from t a m show ?thesis by blast
qed

text \<open>
  C6, as stated: no exception of a host call leaves \<open>execute\<close>. The call
  \<open>nodes.new(type='ShaderNodeMix')\<close> of line 119 stands outside any \<open>try\<close>: on a host that
  does not know that node type the call raises \<open>RuntimeError\<close>, and that exception is the
  outcome of \<open>execute\<close>.
\<close>

theorem uncaught_exception:
  "fst (WORLD_OT_execute mixless_api forest_shading empty_blend) =
     Raised (RuntimeError (''Error: Node type ShaderNodeMix undefined'' @ [CHR 0x0A]))"
  by (rule mixless_raises)

text \<open>
  C6, amended: an exception (an instance of \<open>Exception\<close>) of a call inside one of the
  operators' \<open>try\<close> blocks is caught, reported as an error, and ends the invocation with
  cancelled: an exception of \<open>reveal\<close> or \<open>view_all\<close> when nothing is selected, an
  exception of \<open>reveal\<close>, \<open>hide\<close> or \<open>view_all\<close> under the override of the Graph Editor
  area, and an exception while the image is looked up or loaded. An exception of
  \<open>bpy.data.worlds.new\<close> or of one of the calls of \<open>nodes.new\<close>, which stand outside every
  \<open>try\<close>, is not caught: it is the outcome of \<open>execute\<close>, and for \<open>worlds.new\<close> the host
  state is as before.
\<close>

theorem guarded_calls_are_caught:
  "(selected_editable_fcurves ctx1 = []
      \<and> show_all_ops ops1 (report INFO ''No FCurve selected in the Graph Editor.'' h1)
          = (Some e1, k1) \<longrightarrow>
      GRAPH_OT_execute ops1 ctx1 h1 =
        (Returned CANCELLED, report ERROR (''Failed to call graph operators: '' @ exn_str e1) k1))
   \<and> (selected_editable_fcurves ctx2 \<noteq> [] \<and> visible_fcurves ctx2 \<noteq> []
      \<and> fst (loop_end ctx2 h2) \<noteq> []
      \<and> find (\<lambda>a. area_type a = ''GRAPH_EDITOR'') (screen_areas ctx2) = Some a
      \<and> find (\<lambda>r. region_type r = ''WINDOW'') (regions a) = Some r
      \<and> focus_ops ops2 (a, r) (snd (snd (loop_end ctx2 h2))) = (Some e2, k2) \<longrightarrow>
      GRAPH_OT_execute ops2 ctx2 h2 =
        (Returned CANCELLED, report ERROR (''Failed to call graph operators: '' @ exn_str e2) k2))
   \<and> (get_studio_light_path (studio_lights api3) (studio_light sh3) = Some p3
      \<and> p3 \<noteq> [] \<and> path_exists api3 p3
      \<and> worlds_new_name api3 (''Preview '' @ studio_light sh3) (worlds w3) = Inr given3
      \<and> nodes_new_error api3 ''ShaderNodeTexEnvironment'' = None
      \<and> load_image api3 p3 (images w3) = Inl e3 \<longrightarrow>
      fst (WORLD_OT_execute api3 sh3 w3) = Returned CANCELLED
      \<and> last (reports (snd (WORLD_OT_execute api3 sh3 w3))) =
          (ERROR, ''Failed to load image: '' @ exn_str e3))
   \<and> (get_studio_light_path (studio_lights api4) (studio_light sh4) = Some p4
      \<and> p4 \<noteq> [] \<and> path_exists api4 p4
      \<and> worlds_new_name api4 (''Preview '' @ studio_light sh4) (worlds w4) = Inl e4 \<longrightarrow>
      WORLD_OT_execute api4 sh4 w4 = (Raised e4, w4))
   \<and> (get_studio_light_path (studio_lights api5) (studio_light sh5) = Some p5
      \<and> p5 \<noteq> [] \<and> path_exists api5 p5
      \<and> worlds_new_name api5 (''Preview '' @ studio_light sh5) (worlds w5) = Inr given5
      \<and> find (\<lambda>ty. nodes_new_error api5 ty \<noteq> None) requested_node_types = Some ty5
      \<and> nodes_new_error api5 ty5 = Some e5
      \<and> (ty5 \<noteq> ''ShaderNodeTexEnvironment'' \<longrightarrow>
            load_image api5 p5 (images w5) = Inr (img5, imgs5)) \<longrightarrow>
      fst (WORLD_OT_execute api5 sh5 w5) = Raised e5)"
proof (intro conjI impI)
  assume "selected_editable_fcurves ctx1 = []
      \<and> show_all_ops ops1 (report INFO ''No FCurve selected in the Graph Editor.'' h1)
          = (Some e1, k1)"
  then show "GRAPH_OT_execute ops1 ctx1 h1 =
        (Returned CANCELLED, report ERROR (''Failed to call graph operators: '' @ exn_str e1) k1)"
    by (simp add: GRAPH_OT_execute_def)
next
  assume a: "selected_editable_fcurves ctx2 \<noteq> [] \<and> visible_fcurves ctx2 \<noteq> []
      \<and> fst (loop_end ctx2 h2) \<noteq> []
      \<and> find (\<lambda>a. area_type a = ''GRAPH_EDITOR'') (screen_areas ctx2) = Some a
      \<and> find (\<lambda>r. region_type r = ''WINDOW'') (regions a) = Some r
      \<and> focus_ops ops2 (a, r) (snd (snd (loop_end ctx2 h2))) = (Some e2, k2)"
  then have "GRAPH_OT_execute ops2 ctx2 h2 =
      after_scan ops2 ctx2 (fst (loop_end ctx2 h2)) (snd (snd (loop_end ctx2 h2)))"
    by (simp add: execute_after_loop)
  with a show "GRAPH_OT_execute ops2 ctx2 h2 =
        (Returned CANCELLED, report ERROR (''Failed to call graph operators: '' @ exn_str e2) k2)"
    by (simp add: after_scan_def)
next
  assume a: "get_studio_light_path (studio_lights api3) (studio_light sh3) = Some p3
      \<and> p3 \<noteq> [] \<and> path_exists api3 p3
      \<and> worlds_new_name api3 (''Preview '' @ studio_light sh3) (worlds w3) = Inr given3
      \<and> nodes_new_error api3 ''ShaderNodeTexEnvironment'' = None
      \<and> load_image api3 p3 (images w3) = Inl e3"
  then have st: "WORLD_OT_execute api3 sh3 w3 =
      (Returned CANCELLED,
       report ERROR (''Failed to load image: '' @ exn_str e3)
         (staged w3 (images w3)
            \<lparr>world_name = given3, use_nodes = True,
             nodes = [(new_node ''ShaderNodeTexEnvironment'')\<lparr>location := Some (- 300, 0)\<rparr>],
             links = []\<rparr>))"
    using world_execute_start [of api3 sh3 p3 w3 given3] by simp
  show "fst (WORLD_OT_execute api3 sh3 w3) = Returned CANCELLED"
    unfolding st by simp
  show "last (reports (snd (WORLD_OT_execute api3 sh3 w3))) =
          (ERROR, ''Failed to load image: '' @ exn_str e3)"
    unfolding st by (simp add: report_def)
next
  assume "get_studio_light_path (studio_lights api4) (studio_light sh4) = Some p4
      \<and> p4 \<noteq> [] \<and> path_exists api4 p4
      \<and> worlds_new_name api4 (''Preview '' @ studio_light sh4) (worlds w4) = Inl e4"
  then show "WORLD_OT_execute api4 sh4 w4 = (Raised e4, w4)"
    using world_execute_refused [of api4 sh4 p4 w4 e4] by simp
next
  assume "get_studio_light_path (studio_lights api5) (studio_light sh5) = Some p5
      \<and> p5 \<noteq> [] \<and> path_exists api5 p5
      \<and> worlds_new_name api5 (''Preview '' @ studio_light sh5) (worlds w5) = Inr given5
      \<and> find (\<lambda>ty. nodes_new_error api5 ty \<noteq> None) requested_node_types = Some ty5
      \<and> nodes_new_error api5 ty5 = Some e5
      \<and> (ty5 \<noteq> ''ShaderNodeTexEnvironment'' \<longrightarrow>
            load_image api5 p5 (images w5) = Inr (img5, imgs5))"
  then show "fst (WORLD_OT_execute api5 sh5 w5) = Raised e5"
    using world_execute_node_raises [of api5 sh5 p5 w5 given5 ty5 e5 img5 imgs5] by simp
qed

theorem guarded_calls_are_caught_witness:
  "GRAPH_OT_execute failing_ops unselected_context scenario_host =
     (Returned CANCELLED,
      report ERROR (''Failed to call graph operators: '' @ exn_str (RuntimeError ''poll failed''))
        (report INFO ''No FCurve selected in the Graph Editor.'' scenario_host))
   \<and> GRAPH_OT_execute failing_ops editor_context scenario_host =
     (Returned CANCELLED,
      report ERROR (''Failed to call graph operators: '' @ exn_str (RuntimeError ''poll failed''))
        (snd (snd (loop_end editor_context scenario_host))))
   \<and> fst (WORLD_OT_execute unreadable_api forest_shading empty_blend) = Returned CANCELLED
   \<and> last (reports (snd (WORLD_OT_execute unreadable_api forest_shading empty_blend))) =
       (ERROR, ''Failed to load image: '' @ exn_str (RuntimeError ''cannot read file''))
   \<and> WORLD_OT_execute worldless_api forest_shading empty_blend =
       (Raised (RuntimeError ''cannot create world''), empty_blend)
   \<and> fst (WORLD_OT_execute mixless_api forest_shading empty_blend) =
       Raised (RuntimeError (''Error: Node type ShaderNodeMix undefined'' @ [CHR 0x0A]))"
proof -
  have a: "selected_editable_fcurves unselected_context = []
      \<and> show_all_ops failing_ops
          (report INFO ''No FCurve selected in the Graph Editor.'' scenario_host)
        = (Some (RuntimeError ''poll failed''),
           report INFO ''No FCurve selected in the Graph Editor.'' scenario_host)"
    by (simp add: scenario_contexts failing_reveal)
  have b: "selected_editable_fcurves editor_context \<noteq> [] \<and> visible_fcurves editor_context \<noteq> []
      \<and> fst (loop_end editor_context scenario_host) \<noteq> []
      \<and> find (\<lambda>a. area_type a = ''GRAPH_EDITOR'') (screen_areas editor_context)
          = Some \<lparr>area_type = ''GRAPH_EDITOR'',
                  regions = [\<lparr>region_type = ''HEADER''\<rparr>, \<lparr>region_type = ''WINDOW''\<rparr>]\<rparr>
      \<and> find (\<lambda>r. region_type r = ''WINDOW'')
            (regions \<lparr>area_type = ''GRAPH_EDITOR'',
                      regions = [\<lparr>region_type = ''HEADER''\<rparr>, \<lparr>region_type = ''WINDOW''\<rparr>]\<rparr>)
          = Some \<lparr>region_type = ''WINDOW''\<rparr>
      \<and> focus_ops failing_ops
           (\<lparr>area_type = ''GRAPH_EDITOR'',
              regions = [\<lparr>region_type = ''HEADER''\<rparr>, \<lparr>region_type = ''WINDOW''\<rparr>]\<rparr>,
            \<lparr>region_type = ''WINDOW''\<rparr>)
           (snd (snd (loop_end editor_context scenario_host)))
          = (Some (RuntimeError ''poll failed''), snd (snd (loop_end editor_context scenario_host)))"
    by (simp add: scenario_contexts scenario_show scenario_areas failing_reveal)
  have c: "get_studio_light_path (studio_lights unreadable_api) (studio_light forest_shading)
        = Some ''/lights/forest.exr''
      \<and> ''/lights/forest.exr'' \<noteq> [] \<and> path_exists unreadable_api ''/lights/forest.exr''
      \<and> worlds_new_name unreadable_api (''Preview '' @ studio_light forest_shading)
           (worlds empty_blend) = Inr (''Preview '' @ studio_light forest_shading)
      \<and> nodes_new_error unreadable_api ''ShaderNodeTexEnvironment'' = None
      \<and> load_image unreadable_api ''/lights/forest.exr'' (images empty_blend)
          = Inl (RuntimeError ''cannot read file'')"
    by (simp add: forest_path forest_exists forest_registered forest_load empty_blend_fields
          forest_world_name)
  have d: "get_studio_light_path (studio_lights worldless_api) (studio_light forest_shading)
        = Some ''/lights/forest.exr''
      \<and> ''/lights/forest.exr'' \<noteq> [] \<and> path_exists worldless_api ''/lights/forest.exr''
      \<and> worlds_new_name worldless_api (''Preview '' @ studio_light forest_shading)
           (worlds empty_blend) = Inl (RuntimeError ''cannot create world'')"
    by (simp add: forest_path forest_exists forest_world_name)
  have e: "get_studio_light_path (studio_lights mixless_api) (studio_light forest_shading)
        = Some ''/lights/forest.exr''
      \<and> ''/lights/forest.exr'' \<noteq> [] \<and> path_exists mixless_api ''/lights/forest.exr''
      \<and> worlds_new_name mixless_api (''Preview '' @ studio_light forest_shading)
           (worlds empty_blend) = Inr (''Preview '' @ studio_light forest_shading)"
    by (simp add: forest_path forest_exists forest_world_name empty_blend_fields)
  note f = mixless_first
  have g: "nodes_new_error mixless_api ''ShaderNodeMix'' =
           Some (RuntimeError (''Error: Node type ShaderNodeMix undefined'' @ [CHR 0x0A]))"
    by (simp add: forest_registered)
  have l: "''ShaderNodeMix'' \<noteq> ''ShaderNodeTexEnvironment'' \<longrightarrow>
      load_image mixless_api ''/lights/forest.exr'' (images empty_blend) =
           Inr (\<lparr>image_name = ''forest.exr'', filepath = ''/lights/forest.exr''\<rparr>,
                [\<lparr>image_name = ''forest.exr'', filepath = ''/lights/forest.exr''\<rparr>])"
    by (simp add: forest_load empty_blend_fields)
  note t = guarded_calls_are_caught
    [where ?ctx1.0 = unselected_context and ?ops1.0 = failing_ops and ?h1.0 = scenario_host
       and ?e1.0 = "RuntimeError ''poll failed''"
       and ?k1.0 = "report INFO ''No FCurve selected in the Graph Editor.'' scenario_host"
       and ?ctx2.0 = editor_context and ?ops2.0 = failing_ops and ?h2.0 = scenario_host
       and a = "\<lparr>area_type = ''GRAPH_EDITOR'',
                 regions = [\<lparr>region_type = ''HEADER''\<rparr>, \<lparr>region_type = ''WINDOW''\<rparr>]\<rparr>"
       and r = "\<lparr>region_type = ''WINDOW''\<rparr>"
       and ?e2.0 = "RuntimeError ''poll failed''"
       and ?k2.0 = "snd (snd (loop_end editor_context scenario_host))"
       and ?api3.0 = unreadable_api and ?sh3.0 = forest_shading and ?w3.0 = empty_blend
       and ?p3.0 = "''/lights/forest.exr''"
       and ?given3.0 = "''Preview '' @ studio_light forest_shading"
       and ?e3.0 = "RuntimeError ''cannot read file''"
       and ?api4.0 = worldless_api and ?sh4.0 = forest_shading and ?w4.0 = empty_blend
       and ?p4.0 = "''/lights/forest.exr''"
       and ?e4.0 = "RuntimeError ''cannot create world''"
       and ?api5.0 = mixless_api and ?sh5.0 = forest_shading and ?w5.0 = empty_blend
       and ?p5.0 = "''/lights/forest.exr''"
       and ?given5.0 = "''Preview '' @ studio_light forest_shading"
       and ?img5.0 = "\<lparr>image_name = ''forest.exr'', filepath = ''/lights/forest.exr''\<rparr>"
       and ?imgs5.0 = "[\<lparr>image_name = ''forest.exr'', filepath = ''/lights/forest.exr''\<rparr>]"
       and ?ty5.0 = "''ShaderNodeMix''"
       and ?e5.0 = "RuntimeError (''Error: Node type ShaderNodeMix undefined'' @ [CHR 0x0A])"]
  from t a b c d e f g l show ?thesis by blast
qed

text \<open>
  C8, as stated: a missing area or resource is reported as a warning. Without studio
  lights the preview-world operator reports an error, not a warning; and with nothing
  selected on a screen without areas the focus operator only reports that no curve is
  selected.
\<close>

theorem missing_path_is_an_error:
  "WORLD_OT_execute no_lights_api forest_shading empty_blend =
     (Returned CANCELLED,
      empty_blend\<lparr>reports := [(ERROR, ''Could not find path for studio light: forest.exr'')]\<rparr>)
   \<and> screen_areas unselected_context = []
   \<and> GRAPH_OT_execute idle_ops unselected_context scenario_host =
     (Returned CANCELLED,
      scenario_host\<lparr>reports := [(INFO, ''No FCurve selected in the Graph Editor.'')]\<rparr>)"
  by (simp add: world_execute_missing no_lights_missing report_def empty_blend_fields
        GRAPH_OT_execute_def scenario_contexts show_all_ops_def idle_ops_def)
     (simp add: forest_shading_def unselected_context_def scenario_context_def scenario_host_def)

text \<open>
  C8, amended: when the focus operator has a non-empty selection, visible curves and at
  least one curve to show, and the screen has no Graph Editor area, it reports the
  warning "No Graph Editor area found" and returns cancelled. When the studio light's
  path is missing, empty or not on disk, the preview-world operator reports the error
  "Could not find path for studio light: " followed by the light's name and returns
  cancelled.
\<close>

theorem missing_resource_reports:
  "(selected_editable_fcurves ctx \<noteq> [] \<and> visible_fcurves ctx \<noteq> []
      \<and> fst (loop_end ctx h) \<noteq> []
      \<and> find (\<lambda>a. area_type a = ''GRAPH_EDITOR'') (screen_areas ctx) = None \<longrightarrow>
      GRAPH_OT_execute ops ctx h =
        (Returned CANCELLED,
         report WARNING ''No Graph Editor area found'' (snd (snd (loop_end ctx h)))))
   \<and> (studio_light_missing api sh \<longrightarrow>
      WORLD_OT_execute api sh w =
        (Returned CANCELLED,
         report ERROR (''Could not find path for studio light: '' @ studio_light sh) w))"
  by (simp add: execute_after_loop after_scan_def world_execute_missing)

theorem missing_resource_reports_witness:
  "selected_editable_fcurves scenario_context \<noteq> [] \<and> visible_fcurves scenario_context \<noteq> []
   \<and> fst (loop_end scenario_context scenario_host) \<noteq> []
   \<and> find (\<lambda>a. area_type a = ''GRAPH_EDITOR'') (screen_areas scenario_context) = None
   \<and> studio_light_missing no_lights_api forest_shading
   \<and> GRAPH_OT_execute idle_ops scenario_context scenario_host =
        (Returned CANCELLED,
         report WARNING ''No Graph Editor area found''
           (snd (snd (loop_end scenario_context scenario_host))))
   \<and> WORLD_OT_execute no_lights_api forest_shading empty_blend =
        (Returned CANCELLED,
         report ERROR (''Could not find path for studio light: '' @ studio_light forest_shading)
           empty_blend)"
proof -
  have a: "selected_editable_fcurves scenario_context \<noteq> [] \<and> visible_fcurves scenario_context \<noteq> []
     \<and> fst (loop_end scenario_context scenario_host) \<noteq> []
     \<and> find (\<lambda>a. area_type a = ''GRAPH_EDITOR'') (screen_areas scenario_context) = None"
    by (simp add: scenario_contexts scenario_show scenario_areas)
  note m = no_lights_missing
  note t = missing_resource_reports
    [of scenario_context scenario_host idle_ops no_lights_api forest_shading empty_blend]
  from t a m show ?thesis by blast
qed

end
